theory Spec2Isabelle
  imports Complex_Main
begin

section \<open>Values that cross the handlers' boundary\<close>

text \<open>
  A form submission is a \<^verbatim>\<open>FormData\<close>: an ordered list of key/value entries whose
  values are strings or uploaded files. \<^verbatim>\<open>formData.get(k)\<close> yields the first value stored
  under \<open>k\<close>, or JavaScript's \<^verbatim>\<open>null\<close> when the key is absent; the absent value is
  written \<open>None\<close>.
\<close>

datatype entry = StrV string | FileV

type_synonym formdata = "(string \<times> entry) list"

definition fd_get :: "formdata \<Rightarrow> string \<Rightarrow> entry option" where
  "fd_get formData k = map_of formData k"

text \<open>
  A validation message is either a text written in the source, or the default text of the
  validation library for an issue whose message the source does not override.
\<close>

datatype zod_issue = InvalidType | InvalidEnumValue

datatype issue_msg = Text string | ZodDefault zod_issue

type_synonym field_errors = "(string \<times> issue_msg list) list"

text \<open>
  \<^verbatim>\<open>SignupState\<close> and \<^verbatim>\<open>State\<close>: both fields are optional; \<open>None\<close> is a field that the
  returned object does not have.
\<close>

record state_obj =
  errors :: "field_errors option"
  message :: "string option"

text \<open>
  JavaScript numbers are binary64 floating point numbers. A finite one is written \<open>Fin q\<close>
  with \<open>q\<close> its exact value; an operation computes the exact result and rounds it to the
  nearest binary64 number, ties to the even significand (\<open>round64\<close>). Negative zero is
  not told apart from zero.
\<close>

datatype jsnum = NaN | PosInf | NegInf | Fin rat

fun js_gt :: "jsnum \<Rightarrow> jsnum \<Rightarrow> bool" where
  "js_gt NaN _ = False"
| "js_gt _ NaN = False"
| "js_gt PosInf b = (b \<noteq> PosInf)"
| "js_gt NegInf _ = False"
| "js_gt (Fin a) PosInf = False"
| "js_gt (Fin a) NegInf = True"
| "js_gt (Fin a) (Fin b) = (b < a)"

definition js_le :: "jsnum \<Rightarrow> jsnum \<Rightarrow> bool" where
  "js_le a b = (a \<noteq> NaN \<and> b \<noteq> NaN \<and> \<not> js_gt a b)"

text \<open>\<open>ilog2 n\<close> is the position of the leading bit of \<open>n \<ge> 1\<close>.\<close>

function ilog2 :: "int \<Rightarrow> int" where
  "ilog2 n = (if n < 2 then 0 else 1 + ilog2 (n div 2))"
  by pat_completeness auto
termination
  by (relation "measure nat") auto

declare ilog2.simps [simp del]

text \<open>\<open>pow2_le d a b\<close> is \<open>2 ^ d \<le> a / b\<close>, for positive \<open>a\<close> and \<open>b\<close> and any integer \<open>d\<close>.\<close>

definition pow2_le :: "int \<Rightarrow> int \<Rightarrow> int \<Rightarrow> bool" where
  "pow2_le d a b = (if 0 \<le> d then b * 2 ^ nat d \<le> a else b \<le> a * 2 ^ nat (- d))"

text \<open>The binary exponent of \<open>a / b\<close>: the \<open>e\<close> with \<open>2 ^ e \<le> a / b < 2 ^ (e + 1)\<close>.\<close>

definition floor_log2 :: "int \<Rightarrow> int \<Rightarrow> int" where
  "floor_log2 a b =
     (let d = ilog2 a - ilog2 b in if pow2_le d a b then d else d - 1)"

text \<open>\<open>a / b\<close> rounded to the nearest integer, a tie to the even one.\<close>

definition round_half_even :: "int \<Rightarrow> int \<Rightarrow> int" where
  "round_half_even a b =
     (let f = a div b; r = a mod b
      in if 2 * r < b then f else if b < 2 * r then f + 1 else if even f then f else f + 1)"

definition scale2 :: "rat \<Rightarrow> int \<Rightarrow> rat" where
  "scale2 m k = (if 0 \<le> k then m * 2 ^ nat k else m / 2 ^ nat (- k))"

text \<open>
  Rounding of a positive \<open>a / b\<close>: the significand has 53 bits, so the unit in the last
  place is \<open>2 ^ (e - 52)\<close>, and not below \<open>2 ^ (- 1074)\<close> (the subnormal numbers); a
  result of \<open>2 ^ 1024\<close> or more is \<^verbatim>\<open>Infinity\<close>.
\<close>

definition round64_pos :: "int \<Rightarrow> int \<Rightarrow> jsnum" where
  "round64_pos a b =
     (let e = floor_log2 a b in
      if 1024 \<le> e then PosInf
      else
        let u = max (e - 52) (- 1074);
            n = (if 0 \<le> u then round_half_even a (b * 2 ^ nat u)
                 else round_half_even (a * 2 ^ nat (- u)) b)
        in if e = 1023 \<and> 2 ^ 53 \<le> n then PosInf else Fin (scale2 (of_int n) u))"

fun js_neg :: "jsnum \<Rightarrow> jsnum" where
  "js_neg NaN = NaN"
| "js_neg PosInf = NegInf"
| "js_neg NegInf = PosInf"
| "js_neg (Fin q) = Fin (- q)"

definition round64 :: "rat \<Rightarrow> jsnum" where
  "round64 q =
     (case quotient_of q of (a, b) \<Rightarrow>
        if a = 0 then Fin 0
        else if 0 < a then round64_pos a b
        else js_neg (round64_pos (- a) b))"

text \<open>\<^verbatim>\<open>a * b\<close>.\<close>

fun js_mul :: "jsnum \<Rightarrow> jsnum \<Rightarrow> jsnum" where
  "js_mul NaN _ = NaN"
| "js_mul _ NaN = NaN"
| "js_mul (Fin a) (Fin b) = round64 (a * b)"
| "js_mul (Fin a) PosInf = (if a = 0 then NaN else if 0 < a then PosInf else NegInf)"
| "js_mul (Fin a) NegInf = (if a = 0 then NaN else if 0 < a then NegInf else PosInf)"
| "js_mul PosInf (Fin b) = (if b = 0 then NaN else if 0 < b then PosInf else NegInf)"
| "js_mul NegInf (Fin b) = (if b = 0 then NaN else if 0 < b then NegInf else PosInf)"
| "js_mul PosInf PosInf = PosInf"
| "js_mul PosInf NegInf = NegInf"
| "js_mul NegInf PosInf = NegInf"
| "js_mul NegInf NegInf = PosInf"

section \<open>The world the handlers act on\<close>

record user_row =
  u_name :: "string option"
  u_email :: string
  u_password :: string

text \<open>
  The \<^verbatim>\<open>INSERT\<close> of the source binds no id: the column is filled by the database, and a
  row whose id the handlers never learn carries \<open>None\<close>.
\<close>

record invoice_row =
  inv_id :: "string option"
  inv_customer_id :: string
  inv_amount :: jsnum
  inv_status :: string
  inv_date :: string

text \<open>The SQL statements that occur in the two source files, with their bound parameters.\<close>

datatype stmt =
    SelectName string
  | SelectEmail string
  | InsertUser "string option" string string
  | InsertInvoice string jsnum string string
  | UpdateInvoice string jsnum string string
  | DeleteInvoice string

datatype exn =
    DatabaseError
  | NextRedirect string
  | AuthError string
  | JsError string
  | OtherError string

text \<open>
  \<open>users\<close> and \<open>invoices\<close> are the two tables; \<open>invoice\<close> is the relation that the
  \<^verbatim>\<open>UPDATE invoice\<close> statement names. \<open>faults\<close> decides, statement by
  statement, whether the database client throws (\<open>True\<close>) or executes the statement; an
  exhausted list means no further fault. \<open>statements\<close> records every statement sent,
  \<open>revalidated\<close> every path given to \<^verbatim>\<open>revalidatePath\<close>, \<open>console\<close> every
  \<^verbatim>\<open>console.error\<close> call, and \<open>now\<close> is what \<^verbatim>\<open>new Date().toISOString()\<close> yields.
\<close>

record world =
  users :: "user_row list"
  invoices :: "invoice_row list"
  invoice :: "invoice_row list"
  faults :: "bool list"
  statements :: "stmt list"
  revalidated :: "string list"
  console :: "(string \<times> exn) list"
  now :: string

section \<open>Control flow: normal completion, return, throw\<close>

text \<open>
  A statement sequence either completes normally with a value, leaves the function by
  \<^verbatim>\<open>return\<close>, or throws. \<^verbatim>\<open>try { m } catch (e) { h }\<close> intercepts a throw only; a
  \<^verbatim>\<open>return\<close> inside the \<^verbatim>\<open>try\<close> block leaves the function. A handler whose body
  completes normally returns \<^verbatim>\<open>undefined\<close>.
\<close>

datatype ('a, 'r) res = Norm 'a | Ret 'r | Thr exn

type_synonym ('a, 'r) act = "world \<Rightarrow> ('a, 'r) res \<times> world"

definition unit_act :: "'a \<Rightarrow> ('a, 'r) act" where
  "unit_act a = (\<lambda>w. (Norm a, w))"

definition js_return :: "'r \<Rightarrow> ('a, 'r) act" where
  "js_return r = (\<lambda>w. (Ret r, w))"

definition js_throw :: "exn \<Rightarrow> ('a, 'r) act" where
  "js_throw e = (\<lambda>w. (Thr e, w))"

definition and_then :: "('a, 'r) act \<Rightarrow> ('a \<Rightarrow> ('b, 'r) act) \<Rightarrow> ('b, 'r) act" where
  "and_then m f = (\<lambda>w. case m w of
       (Norm a, w') \<Rightarrow> f a w'
     | (Ret r, w') \<Rightarrow> (Ret r, w')
     | (Thr e, w') \<Rightarrow> (Thr e, w'))"

definition try_catch :: "('a, 'r) act \<Rightarrow> (exn \<Rightarrow> ('a, 'r) act) \<Rightarrow> ('a, 'r) act" where
  "try_catch m h = (\<lambda>w. case m w of
       (Thr e, w') \<Rightarrow> h e w'
     | other \<Rightarrow> other)"

section \<open>The framework and the database client\<close>

text \<open>
  \<^verbatim>\<open>redirect\<close> of \<^verbatim>\<open>next/navigation\<close> has return type \<^verbatim>\<open>never\<close>: it signals the
  navigation by throwing a framework error, which the framework catches above the handler.
  \<^verbatim>\<open>revalidatePath\<close> records the path.
\<close>

definition redirect :: "string \<Rightarrow> ('a, 'r) act" where
  "redirect path = js_throw (NextRedirect path)"

definition revalidatePath :: "string \<Rightarrow> (unit, 'r) act" where
  "revalidatePath path = (\<lambda>w. (Norm (), w\<lparr>revalidated := revalidated w @ [path]\<rparr>))"

definition console_error :: "string \<Rightarrow> exn \<Rightarrow> (unit, 'r) act" where
  "console_error label e = (\<lambda>w. (Norm (), w\<lparr>console := console w @ [(label, e)]\<rparr>))"

text \<open>What a statement does to the tables, and the rows it yields, when the database executes it.\<close>

fun exec_stmt :: "stmt \<Rightarrow> world \<Rightarrow> string list \<times> world" where
  "exec_stmt (SelectName n) w =
     (map (\<lambda>r. n) (filter (\<lambda>r. u_name r = Some n) (users w)), w)"
| "exec_stmt (SelectEmail e) w =
     (map u_email (filter (\<lambda>r. u_email r = e) (users w)), w)"
| "exec_stmt (InsertUser n e p) w =
     ([], w\<lparr>users := users w @ [\<lparr>u_name = n, u_email = e, u_password = p\<rparr>]\<rparr>)"
| "exec_stmt (InsertInvoice c a s d) w =
     ([], w\<lparr>invoices := invoices w @
            [\<lparr>inv_id = None, inv_customer_id = c, inv_amount = a, inv_status = s, inv_date = d\<rparr>]\<rparr>)"
| "exec_stmt (UpdateInvoice c a s i) w =
     ([], w\<lparr>invoice := map (\<lambda>r. if inv_id r = Some i
            then r\<lparr>inv_customer_id := c, inv_amount := a, inv_status := s\<rparr>
            else r) (invoice w)\<rparr>)"
| "exec_stmt (DeleteInvoice i) w =
     ([], w\<lparr>invoices := filter (\<lambda>r. inv_id r \<noteq> Some i) (invoices w)\<rparr>)"

text \<open>
  The tagged template \<^verbatim>\<open>sql`...`\<close>: the statement is sent (and recorded); the database
  either throws or executes it.
\<close>

definition sql :: "stmt \<Rightarrow> (string list, 'r) act" where
  "sql s = (\<lambda>w.
     let w1 = w\<lparr>statements := statements w @ [s], faults := tl (faults w)\<rparr> in
     case faults w of
       True # _ \<Rightarrow> (Thr DatabaseError, w1)
     | _ \<Rightarrow> (case exec_stmt s w1 of (rows, w2) \<Rightarrow> (Norm rows, w2)))"

text \<open>A call into code outside the handlers (the identity provider): it returns or throws.\<close>

definition call :: "(world \<Rightarrow> (exn + 'a) \<times> world) \<Rightarrow> ('a, 'r) act" where
  "call f = (\<lambda>w. case f w of
       (Inl e, w') \<Rightarrow> (Thr e, w')
     | (Inr a, w') \<Rightarrow> (Norm a, w'))"

definition new_Date_toISOString :: "(string, 'r) act" where
  "new_Date_toISOString = (\<lambda>w. (Norm (now w), w))"

text \<open>\<^verbatim>\<open>s.split('T')[0]\<close>: the part of \<open>s\<close> before the first \<open>T\<close>.\<close>

definition split_T_0 :: "string \<Rightarrow> string" where
  "split_T_0 s = takeWhile (\<lambda>c. c \<noteq> CHR ''T'') s"

text \<open>
  The libraries the handlers are linked against: the validation library's e-mail test, and
  \<^verbatim>\<open>bcrypt.hash(password, rounds)\<close> (with the salt it draws for this call) together with
  its companion \<^verbatim>\<open>bcrypt.compare(password, hash)\<close>.
\<close>

record libs =
  is_email :: "string \<Rightarrow> bool"
  bcrypt_hash :: "string \<Rightarrow> nat \<Rightarrow> string"
  bcrypt_compare :: "string \<Rightarrow> string \<Rightarrow> bool"

section \<open>Coercion to a number\<close>

text \<open>
  \<^verbatim>\<open>z.coerce.number()\<close> applies \<^verbatim>\<open>Number(...)\<close> to the raw value. On a string this is
  the language's StringToNumber: surrounding white space is dropped, the empty string is
  \<open>0\<close>, and the rest must be a hexadecimal, octal or binary integer literal, or an optionally
  signed decimal literal (digits, fraction, exponent) or \<^verbatim>\<open>Infinity\<close>, whose exact value
  is rounded to binary64; anything else is
  \<^verbatim>\<open>NaN\<close>. \<^verbatim>\<open>Number(null)\<close> is \<open>0\<close> and an object that is not a number is \<^verbatim>\<open>NaN\<close>.
  Negative zero is not told apart from zero. A \<open>char\<close> stands for a code unit below 256,
  so the white space characters are those of that range.
\<close>

definition is_ws :: "char \<Rightarrow> bool" where
  "is_ws c = (c \<in> set [CHR 0x09, CHR 0x0A, CHR 0x0B, CHR 0x0C, CHR 0x0D, CHR 0x20, CHR 0xA0])"

definition trim :: "string \<Rightarrow> string" where
  "trim s = rev (dropWhile is_ws (rev (dropWhile is_ws s)))"

definition is_dig :: "char \<Rightarrow> bool" where
  "is_dig c = (c \<in> set ''0123456789'')"

definition digit_of :: "nat \<Rightarrow> char \<Rightarrow> nat option" where
  "digit_of b c =
     (case map_of
         [(CHR ''0'', 0), (CHR ''1'', 1), (CHR ''2'', 2), (CHR ''3'', 3),
          (CHR ''4'', 4), (CHR ''5'', 5), (CHR ''6'', 6), (CHR ''7'', 7),
          (CHR ''8'', 8), (CHR ''9'', 9), (CHR ''a'', 10), (CHR ''b'', 11),
          (CHR ''c'', 12), (CHR ''d'', 13), (CHR ''e'', 14), (CHR ''f'', 15),
          (CHR ''A'', 10), (CHR ''B'', 11), (CHR ''C'', 12), (CHR ''D'', 13),
          (CHR ''E'', 14), (CHR ''F'', 15)] c of
        None \<Rightarrow> None
      | Some d \<Rightarrow> if d < b then Some d else None)"

fun parse_digits :: "nat \<Rightarrow> nat \<Rightarrow> string \<Rightarrow> nat option" where
  "parse_digits b acc [] = Some acc"
| "parse_digits b acc (c # cs) =
     (case digit_of b c of None \<Rightarrow> None | Some d \<Rightarrow> parse_digits b (acc * b + d) cs)"

definition parse_nat :: "nat \<Rightarrow> string \<Rightarrow> nat option" where
  "parse_nat b s = (if s = [] then None else parse_digits b 0 s)"

definition parse_exponent :: "string \<Rightarrow> int option" where
  "parse_exponent s =
     (case s of
        [] \<Rightarrow> Some 0
      | c # t \<Rightarrow>
          if c = CHR ''e'' \<or> c = CHR ''E'' then
            (case t of
               CHR ''+'' # ds \<Rightarrow> map_option int (parse_nat 10 ds)
             | CHR ''-'' # ds \<Rightarrow> map_option (\<lambda>n. - int n) (parse_nat 10 ds)
             | _ \<Rightarrow> map_option int (parse_nat 10 t))
          else None)"

definition scale10 :: "rat \<Rightarrow> int \<Rightarrow> rat" where
  "scale10 m k = (if 0 \<le> k then m * 10 ^ nat k else m / 10 ^ nat (- k))"

definition parse_unsigned :: "string \<Rightarrow> rat option" where
  "parse_unsigned s =
     (let ip = takeWhile is_dig s;
          r1 = dropWhile is_dig s;
          fp = (case r1 of CHR ''.'' # t \<Rightarrow> takeWhile is_dig t | _ \<Rightarrow> []);
          r2 = (case r1 of CHR ''.'' # t \<Rightarrow> dropWhile is_dig t | _ \<Rightarrow> r1)
      in if ip = [] \<and> fp = [] then None
         else (case (parse_digits 10 0 (ip @ fp), parse_exponent r2) of
                 (Some m, Some e) \<Rightarrow> Some (scale10 (of_nat m) (e - int (length fp)))
               | _ \<Rightarrow> None))"

definition parse_signed :: "rat \<Rightarrow> string \<Rightarrow> jsnum" where
  "parse_signed sg u =
     (if u = ''Infinity'' then (if 0 < sg then PosInf else NegInf)
      else (case parse_unsigned u of None \<Rightarrow> NaN | Some q \<Rightarrow> round64 (sg * q)))"

definition radix_literal :: "nat \<Rightarrow> string \<Rightarrow> jsnum" where
  "radix_literal b ds = (case parse_nat b ds of None \<Rightarrow> NaN | Some n \<Rightarrow> round64 (of_nat n))"

definition StringToNumber :: "string \<Rightarrow> jsnum" where
  "StringToNumber s =
     (case trim s of
        [] \<Rightarrow> Fin 0
      | CHR ''+'' # u \<Rightarrow> parse_signed 1 u
      | CHR ''-'' # u \<Rightarrow> parse_signed (- 1) u
      | CHR ''0'' # x # ds \<Rightarrow>
          if x = CHR ''x'' \<or> x = CHR ''X'' then radix_literal 16 ds
          else if x = CHR ''o'' \<or> x = CHR ''O'' then radix_literal 8 ds
          else if x = CHR ''b'' \<or> x = CHR ''B'' then radix_literal 2 ds
          else parse_signed 1 (trim s)
      | _ \<Rightarrow> parse_signed 1 (trim s))"

definition Number :: "entry option \<Rightarrow> jsnum" where
  "Number v = (case v of
       None \<Rightarrow> Fin 0
     | Some FileV \<Rightarrow> NaN
     | Some (StrV s) \<Rightarrow> StringToNumber s)"

section \<open>Schema validation\<close>

text \<open>
  A field schema yields the parsed value or the messages of its issues. \<^verbatim>\<open>z.string()\<close>
  accepts strings only; the message of its type issue is the schema's
  \<^verbatim>\<open>invalid_type_error\<close> where the source gives one.
\<close>

definition z_string :: "issue_msg \<Rightarrow> entry option \<Rightarrow> issue_msg list + string" where
  "z_string type_msg v = (case v of Some (StrV s) \<Rightarrow> Inr s | _ \<Rightarrow> Inl [type_msg])"

definition z_check :: "(string \<Rightarrow> bool) \<Rightarrow> string \<Rightarrow> issue_msg list + string \<Rightarrow> issue_msg list + string" where
  "z_check ok msg r = (case r of
       Inl ms \<Rightarrow> Inl ms
     | Inr s \<Rightarrow> if ok s then Inr s else Inl [Text msg])"

definition z_min :: "nat \<Rightarrow> string \<Rightarrow> issue_msg list + string \<Rightarrow> issue_msg list + string" where
  "z_min n msg r = z_check (\<lambda>s. n \<le> length s) msg r"

definition z_email :: "libs \<Rightarrow> string \<Rightarrow> issue_msg list + string \<Rightarrow> issue_msg list + string" where
  "z_email L msg r = z_check (is_email L) msg r"

text \<open>
  \<^verbatim>\<open>z.coerce.number().gt(0, ...)\<close>: the coerced value must be a number other than
  \<^verbatim>\<open>NaN\<close>, and the check fails when \<^verbatim>\<open>value <= 0\<close>.
\<close>

definition z_coerce_number_gt :: "jsnum \<Rightarrow> string \<Rightarrow> entry option \<Rightarrow> issue_msg list + jsnum" where
  "z_coerce_number_gt bound msg v =
     (let n = Number v in
      if n = NaN then Inl [ZodDefault InvalidType]
      else if js_le n bound then Inl [Text msg]
      else Inr n)"

definition z_enum :: "string list \<Rightarrow> issue_msg \<Rightarrow> entry option \<Rightarrow> issue_msg list + string" where
  "z_enum vals type_msg v = (case v of
       Some (StrV s) \<Rightarrow> if s \<in> set vals then Inr s else Inl [ZodDefault InvalidEnumValue]
     | _ \<Rightarrow> Inl [type_msg])"

text \<open>\<^verbatim>\<open>error.flatten().fieldErrors\<close>: the fields that have issues, in schema order.\<close>

definition field_issues :: "string \<Rightarrow> issue_msg list + 'a \<Rightarrow> field_errors" where
  "field_issues k r = (case r of Inl ms \<Rightarrow> [(k, ms)] | Inr _ \<Rightarrow> [])"

text \<open>\<^verbatim>\<open>SignupSchema\<close> of \<^verbatim>\<open>app/lib/actions.ts\<close>.\<close>

definition actions_SignupSchema ::
  "libs \<Rightarrow> entry option \<Rightarrow> entry option \<Rightarrow> entry option \<Rightarrow> field_errors + (string \<times> string \<times> string)" where
  "actions_SignupSchema L name email password =
     (let n = z_min 1 ''Name is required'' (z_string (ZodDefault InvalidType) name);
          e = z_email L ''Invalid email address'' (z_string (ZodDefault InvalidType) email);
          p = z_min 6 ''Password must be at least 6 characters long''
                (z_string (ZodDefault InvalidType) password)
      in case (n, e, p) of
           (Inr n', Inr e', Inr p') \<Rightarrow> Inr (n', e', p')
         | _ \<Rightarrow> Inl (field_issues ''name'' n @ field_issues ''email'' e @ field_issues ''password'' p))"

text \<open>\<^verbatim>\<open>SignupSchema\<close> of \<^verbatim>\<open>app/lib/actions/signup.ts\<close>.\<close>

definition signup_SignupSchema ::
  "libs \<Rightarrow> entry option \<Rightarrow> entry option \<Rightarrow> field_errors + (string \<times> string)" where
  "signup_SignupSchema L email password =
     (let e = z_email L ''Invalid email address'' (z_string (ZodDefault InvalidType) email);
          p = z_min 6 ''Password must be at least 6 characters''
                (z_string (ZodDefault InvalidType) password)
      in case (e, p) of
           (Inr e', Inr p') \<Rightarrow> Inr (e', p')
         | _ \<Rightarrow> Inl (field_issues ''email'' e @ field_issues ''password'' p))"

text \<open>
  \<^verbatim>\<open>FormSchema.omit({ id: true, data: true })\<close>, which is both \<^verbatim>\<open>CreateInvoice\<close> and
  \<^verbatim>\<open>Updateinvoice\<close>.
\<close>

definition CreateInvoice ::
  "entry option \<Rightarrow> entry option \<Rightarrow> entry option \<Rightarrow> field_errors + (string \<times> jsnum \<times> string)" where
  "CreateInvoice customerId amount status =
     (let c = z_string (Text ''Please select a customer'') customerId;
          a = z_coerce_number_gt (Fin 0) ''Please enter an amount greater than $0'' amount;
          s = z_enum [''pending'', ''paid''] (Text ''Please select an invoice status'') status
      in case (c, a, s) of
           (Inr c', Inr a', Inr s') \<Rightarrow> Inr (c', a', s')
         | _ \<Rightarrow> Inl (field_issues ''customerId'' c @ field_issues ''amount'' a
                      @ field_issues ''status'' s))"

definition Updateinvoice ::
  "entry option \<Rightarrow> entry option \<Rightarrow> entry option \<Rightarrow> field_errors + (string \<times> jsnum \<times> string)" where
  "Updateinvoice = CreateInvoice"

section \<open>The handlers\<close>

text \<open>\<^verbatim>\<open>signup\<close> of \<^verbatim>\<open>app/lib/actions.ts\<close>.\<close>

definition actions_signup :: "libs \<Rightarrow> state_obj \<Rightarrow> formdata \<Rightarrow> (unit, state_obj) act" where
  "actions_signup L prevState formData =
     (case actions_SignupSchema L (fd_get formData ''name'') (fd_get formData ''email'')
             (fd_get formData ''password'') of
        Inl fieldErrors \<Rightarrow>
          js_return \<lparr>errors = Some fieldErrors, message = Some ''Invalid fields.''\<rparr>
      | Inr (name, email, password) \<Rightarrow>
          try_catch
            (and_then (sql (SelectName name)) (\<lambda>existingUsername.
               if length existingUsername > 0 then
                 js_return \<lparr>errors = None,
                            message = Some ''User already exists with this name.''\<rparr>
               else
                 and_then (sql (SelectEmail email)) (\<lambda>existingEmail.
                   if length existingEmail > 0 then
                     js_return \<lparr>errors = None,
                                message = Some ''User already exists with this email.''\<rparr>
                   else
                     and_then (unit_act (bcrypt_hash L password 10)) (\<lambda>hashedPassword.
                     and_then (sql (InsertUser (Some name) email hashedPassword)) (\<lambda>_.
                       redirect ''/login'')))))
            (\<lambda>error.
               and_then (console_error ''Signup Error:'' error) (\<lambda>_.
                 js_return \<lparr>errors = None,
                            message = Some ''Database Error: Failed to create user.''\<rparr>)))"

text \<open>\<^verbatim>\<open>signup\<close> of \<^verbatim>\<open>app/lib/actions/signup.ts\<close>.\<close>

definition signup_signup :: "libs \<Rightarrow> state_obj \<Rightarrow> formdata \<Rightarrow> (unit, state_obj) act" where
  "signup_signup L prevState formData =
     (case signup_SignupSchema L (fd_get formData ''email'') (fd_get formData ''password'') of
        Inl fieldErrors \<Rightarrow>
          js_return \<lparr>errors = Some fieldErrors, message = Some ''Invalid fields.''\<rparr>
      | Inr (email, password) \<Rightarrow>
          try_catch
            (and_then (sql (SelectEmail email)) (\<lambda>existingUser.
               if length existingUser > 0 then
                 js_return \<lparr>errors = None,
                            message = Some ''User already exists with this email.''\<rparr>
               else
                 and_then (unit_act (bcrypt_hash L password 10)) (\<lambda>hashedPassword.
                 and_then (sql (InsertUser None email hashedPassword)) (\<lambda>_.
                   js_return \<lparr>errors = None,
                              message = Some ''User created successfully!''\<rparr>))))
            (\<lambda>error.
               and_then (console_error ''Signup Error:'' error) (\<lambda>_.
                 js_return \<lparr>errors = None,
                            message = Some ''Database Error: Failed to create user.''\<rparr>)))"

definition createInvoice :: "state_obj \<Rightarrow> formdata \<Rightarrow> (unit, state_obj) act" where
  "createInvoice prevState formData =
     (case CreateInvoice (fd_get formData ''customerId'') (fd_get formData ''amount'')
             (fd_get formData ''status'') of
        Inl fieldErrors \<Rightarrow>
          js_return \<lparr>errors = Some fieldErrors,
                     message = Some ''Missing Fields. Failed to Create invoice.''\<rparr>
      | Inr (customerId, amount, status) \<Rightarrow>
          and_then (unit_act (js_mul amount (Fin 100))) (\<lambda>amountInCents.
          and_then new_Date_toISOString (\<lambda>iso.
          and_then (unit_act (split_T_0 iso)) (\<lambda>date.
          and_then
            (try_catch
               (and_then (sql (InsertInvoice customerId amountInCents status date)) (\<lambda>_.
                  unit_act ()))
               (\<lambda>error.
                  and_then (console_error ''Error:'' error) (\<lambda>_.
                    js_return \<lparr>errors = None,
                               message = Some ''Database Error: Failed to Create Invoice.''\<rparr>)))
            (\<lambda>_.
          and_then (revalidatePath ''/dashboard/invoices'') (\<lambda>_.
            redirect ''/dashboard/invoices''))))))"

text \<open>\<^verbatim>\<open>updateInvoice\<close> reads the customer id under the key \<^verbatim>\<open>custmerId\<close>.\<close>

definition updateInvoice :: "string \<Rightarrow> state_obj \<Rightarrow> formdata \<Rightarrow> (unit, state_obj) act" where
  "updateInvoice the_id prevState formData =
     (case Updateinvoice (fd_get formData ''custmerId'') (fd_get formData ''amount'')
             (fd_get formData ''status'') of
        Inl fieldErrors \<Rightarrow>
          js_return \<lparr>errors = Some fieldErrors,
                     message = Some ''Missing Fields. Failed to Update Invoice.''\<rparr>
      | Inr (customerId, amount, status) \<Rightarrow>
          and_then (unit_act (js_mul amount (Fin 100))) (\<lambda>amountInCents.
          and_then
            (try_catch
               (and_then (sql (UpdateInvoice customerId amountInCents status the_id)) (\<lambda>_.
                  unit_act ()))
               (\<lambda>error.
                  js_return \<lparr>errors = None,
                             message = Some ''Database Error: Failed to Update Invoice''\<rparr>))
            (\<lambda>_.
          and_then (revalidatePath ''/dashboard/invoices'') (\<lambda>_.
            redirect ''/dashboard/invoices''))))"

text \<open>\<^verbatim>\<open>deleteInvoice\<close>, with the statements that follow its \<^verbatim>\<open>throw\<close>.\<close>

definition deleteInvoice :: "string \<Rightarrow> (unit, unit) act" where
  "deleteInvoice the_id =
     and_then (js_throw (JsError ''Failed to Delete Invoice'')) (\<lambda>_ :: unit.
     and_then (sql (DeleteInvoice the_id)) (\<lambda>_.
       revalidatePath ''/dashboard/invoices''))"

text \<open>
  \<^verbatim>\<open>authenticate\<close>; \<open>signIn\<close> is the identity provider's sign-in call. An error that is an
  \<^verbatim>\<open>AuthError\<close> carries its \<^verbatim>\<open>type\<close>.
\<close>

definition authenticate ::
  "(string \<Rightarrow> formdata \<Rightarrow> world \<Rightarrow> (exn + unit) \<times> world) \<Rightarrow> string option \<Rightarrow> formdata
     \<Rightarrow> (unit, string) act" where
  "authenticate signIn prevState formData =
     try_catch
       (and_then (call (signIn ''credentials'' formData)) (\<lambda>_. unit_act ()))
       (\<lambda>error.
          case error of
            AuthError type \<Rightarrow>
              if type = ''CredentialsSignin'' then js_return ''Invalid credentials''
              else js_return ''Something went wrong''
          | _ \<Rightarrow> js_throw error)"

section \<open>Notions used to state the properties\<close>

text \<open>The next \<open>n\<close> statements sent to the database are executed, none throws.\<close>

definition healthy :: "nat \<Rightarrow> world \<Rightarrow> bool" where
  "healthy n w = (True \<notin> set (take n (faults w)))"

definition fault_next :: "world \<Rightarrow> bool" where
  "fault_next w = (case faults w of True # _ \<Rightarrow> True | _ \<Rightarrow> False)"

definition sent :: "stmt \<Rightarrow> world \<Rightarrow> world" where
  "sent s w = w\<lparr>statements := statements w @ [s], faults := tl (faults w)\<rparr>"

text \<open>\<^verbatim>\<open>error instanceof AuthError\<close>.\<close>

definition instanceof_AuthError :: "exn \<Rightarrow> bool" where
  "instanceof_AuthError e = (case e of AuthError _ \<Rightarrow> True | _ \<Rightarrow> False)"

text \<open>A number that is a whole number (of cents).\<close>

definition js_is_integer :: "jsnum \<Rightarrow> bool" where
  "js_is_integer n = (case n of Fin q \<Rightarrow> of_int \<lfloor>q\<rfloor> = q | _ \<Rightarrow> False)"

text \<open>
  What a handler hands back: an object that has an \<open>errors\<close> field (and a message), or an
  object that has a message and no \<open>errors\<close> field.
\<close>

definition returned_with_errors :: "(unit, state_obj) res \<Rightarrow> bool" where
  "returned_with_errors r =
     (case r of Ret obj \<Rightarrow> errors obj \<noteq> None \<and> message obj \<noteq> None | _ \<Rightarrow> False)"

definition returned_message_only :: "(unit, state_obj) res \<Rightarrow> bool" where
  "returned_message_only r =
     (case r of Ret obj \<Rightarrow> errors obj = None \<and> message obj \<noteq> None | _ \<Rightarrow> False)"

subsection \<open>Sample inputs\<close>

text \<open>
  A stand-in for the libraries, for running the handlers on concrete inputs: an address is
  accepted when it contains \<open>@\<close>, and the hash of a password is a prefix followed by the
  reversed password.
\<close>

definition sample_libs :: libs where
  "sample_libs = \<lparr>is_email = (\<lambda>s. CHR ''@'' \<in> set s),
                   bcrypt_hash = (\<lambda>p c. ''$2b$'' @ rev p),
                   bcrypt_compare = (\<lambda>p h. h = ''$2b$'' @ rev p)\<rparr>"

definition empty_world :: world where
  "empty_world = \<lparr>users = [], invoices = [], invoice = [], faults = [], statements = [],
                   revalidated = [], console = [], now = ''2024-05-01T10:00:00.000Z''\<rparr>"

text \<open>A world whose database throws on the next statement.\<close>

definition down_world :: world where
  "down_world = empty_world\<lparr>faults := [True]\<rparr>"

definition no_state :: state_obj where
  "no_state = \<lparr>errors = None, message = None\<rparr>"

definition signup_form :: formdata where
  "signup_form = [(''name'', StrV ''bob''), (''email'', StrV ''a@b.com''),
                  (''password'', StrV ''secret'')]"

text \<open>A world whose \<open>users\<close> table holds one row, for \<open>bob\<close>.\<close>

definition bob_world :: world where
  "bob_world = empty_world\<lparr>users :=
     [\<lparr>u_name = Some ''bob'', u_email = ''a@b.com'', u_password = ''$2b$terces''\<rparr>]\<rparr>"

definition bad_signup_form :: formdata where
  "bad_signup_form = [(''name'', StrV ''bob''), (''email'', StrV ''nowhere''),
                      (''password'', StrV ''abc'')]"

definition invoice_form :: "string \<Rightarrow> formdata" where
  "invoice_form amount = [(''customerId'', StrV ''c1''), (''amount'', StrV amount),
                          (''status'', StrV ''pending'')]"

text \<open>A form that holds every key the handlers read, the misspelled one included.\<close>

definition full_form :: formdata where
  "full_form = [(''name'', StrV ''bob''), (''email'', StrV ''a@b.com''),
                (''password'', StrV ''secret''), (''customerId'', StrV ''c1''),
                (''custmerId'', StrV ''c1''), (''amount'', StrV ''12.50''),
                (''status'', StrV ''paid'')]"

definition bad_invoice_form :: formdata where
  "bad_invoice_form = [(''amount'', StrV ''-5''), (''status'', StrV ''overdue'')]"

text \<open>
  A sign-in call that fails according to the submitted password: wrong credentials, another
  authentication error, or an error of another kind.
\<close>

definition sample_signIn :: "string \<Rightarrow> formdata \<Rightarrow> world \<Rightarrow> (exn + unit) \<times> world" where
  "sample_signIn strategy formData w =
     (case fd_get formData ''password'' of
        None \<Rightarrow> (Inl (OtherError ''TypeError''), w)
      | Some FileV \<Rightarrow> (Inl (AuthError ''CallbackRouteError''), w)
      | Some (StrV p) \<Rightarrow>
          if p = ''secret'' then (Inl (NextRedirect ''/dashboard''), w)
          else (Inl (AuthError ''CredentialsSignin''), w))"

section \<open>Auxiliary facts\<close>

lemma sql_healthy:
  "healthy (Suc n) w \<Longrightarrow>
     sql s w = (Norm (fst (exec_stmt s (sent s w))), snd (exec_stmt s (sent s w)))"
  by (cases "faults w") (auto simp: healthy_def sql_def sent_def split: prod.splits bool.splits)

lemma healthy_sent: "healthy (Suc n) w \<Longrightarrow> healthy n (sent s w)"
  by (cases "faults w") (auto simp: healthy_def sent_def)

lemmas ctl = and_then_def try_catch_def js_return_def js_throw_def unit_act_def redirect_def
  revalidatePath_def console_error_def new_Date_toISOString_def

lemma actions_SignupSchema_Inr:
  "actions_SignupSchema L n e p = Inr (n', e', p') \<longleftrightarrow>
     n = Some (StrV n') \<and> 1 \<le> length n' \<and> e = Some (StrV e') \<and> is_email L e' \<and>
     p = Some (StrV p') \<and> 6 \<le> length p'"
  by (auto simp: actions_SignupSchema_def z_min_def z_email_def z_check_def z_string_def Let_def
      split: sum.splits option.splits entry.splits if_splits)

lemma signup_SignupSchema_Inr:
  "signup_SignupSchema L e p = Inr (e', p') \<longleftrightarrow>
     e = Some (StrV e') \<and> is_email L e' \<and> p = Some (StrV p') \<and> 6 \<le> length p'"
  by (auto simp: signup_SignupSchema_def z_min_def z_email_def z_check_def z_string_def Let_def
      split: sum.splits option.splits entry.splits if_splits)

lemma CreateInvoice_Inr:
  "CreateInvoice c a s = Inr (c', a', s') \<longleftrightarrow>
     c = Some (StrV c') \<and> Number a = a' \<and> a' \<noteq> NaN \<and> \<not> js_le a' (Fin 0) \<and>
     s = Some (StrV s') \<and> s' \<in> {''pending'', ''paid''}"
  by (auto simp: CreateInvoice_def z_coerce_number_gt_def z_enum_def z_string_def Let_def
      split: sum.splits option.splits entry.splits if_splits)

lemma actions_signup_invalid:
  "actions_SignupSchema L (fd_get fd ''name'') (fd_get fd ''email'') (fd_get fd ''password'') = Inl fe
   \<Longrightarrow> actions_signup L ps fd w = (Ret \<lparr>errors = Some fe, message = Some ''Invalid fields.''\<rparr>, w)"
  by (simp add: actions_signup_def js_return_def)

lemma signup_signup_invalid:
  "signup_SignupSchema L (fd_get fd ''email'') (fd_get fd ''password'') = Inl fe
   \<Longrightarrow> signup_signup L ps fd w = (Ret \<lparr>errors = Some fe, message = Some ''Invalid fields.''\<rparr>, w)"
  by (simp add: signup_signup_def js_return_def)

lemma createInvoice_invalid:
  "CreateInvoice (fd_get fd ''customerId'') (fd_get fd ''amount'') (fd_get fd ''status'') = Inl fe
   \<Longrightarrow> createInvoice ps fd w =
      (Ret \<lparr>errors = Some fe, message = Some ''Missing Fields. Failed to Create invoice.''\<rparr>, w)"
  by (simp add: createInvoice_def js_return_def)

lemma updateInvoice_invalid:
  "Updateinvoice (fd_get fd ''custmerId'') (fd_get fd ''amount'') (fd_get fd ''status'') = Inl fe
   \<Longrightarrow> updateInvoice i ps fd w =
      (Ret \<lparr>errors = Some fe, message = Some ''Missing Fields. Failed to Update Invoice.''\<rparr>, w)"
  by (simp add: updateInvoice_def js_return_def)

lemma actions_schema_bad_email:
  "e = Some (StrV x) \<Longrightarrow> \<not> is_email L x \<Longrightarrow>
   \<exists>fe. actions_SignupSchema L n e p = Inl fe \<and> map_of fe ''email'' = Some [Text ''Invalid email address'']"
  by (auto simp: actions_SignupSchema_def z_min_def z_email_def z_check_def z_string_def Let_def
      field_issues_def split: sum.splits option.splits entry.splits if_splits)

lemma actions_schema_short_password:
  "p = Some (StrV x) \<Longrightarrow> length x < 6 \<Longrightarrow>
   \<exists>fe. actions_SignupSchema L n e p = Inl fe \<and>
     map_of fe ''password'' = Some [Text ''Password must be at least 6 characters long'']"
  by (auto simp: actions_SignupSchema_def z_min_def z_email_def z_check_def z_string_def Let_def
      field_issues_def split: sum.splits option.splits entry.splits if_splits)

lemma signup_schema_bad_email:
  "e = Some (StrV x) \<Longrightarrow> \<not> is_email L x \<Longrightarrow>
   \<exists>fe. signup_SignupSchema L e p = Inl fe \<and> map_of fe ''email'' = Some [Text ''Invalid email address'']"
  by (auto simp: signup_SignupSchema_def z_min_def z_email_def z_check_def z_string_def Let_def
      field_issues_def split: sum.splits option.splits entry.splits if_splits)

lemma signup_schema_short_password:
  "p = Some (StrV x) \<Longrightarrow> length x < 6 \<Longrightarrow>
   \<exists>fe. signup_SignupSchema L e p = Inl fe \<and>
     map_of fe ''password'' = Some [Text ''Password must be at least 6 characters'']"
  by (auto simp: signup_SignupSchema_def z_min_def z_email_def z_check_def z_string_def Let_def
      field_issues_def split: sum.splits option.splits entry.splits if_splits)

lemma create_schema_bad_amount:
  "js_le (Number a) (Fin 0) \<Longrightarrow>
   \<exists>fe. CreateInvoice c a s = Inl fe \<and>
     map_of fe ''amount'' = Some [Text ''Please enter an amount greater than $0'']"
  by (auto simp: CreateInvoice_def z_coerce_number_gt_def z_enum_def z_string_def Let_def
      field_issues_def js_le_def split: sum.splits option.splits entry.splits if_splits)

lemma create_schema_no_customer:
  "c = None \<Longrightarrow>
   \<exists>fe. CreateInvoice c a s = Inl fe \<and>
     map_of fe ''customerId'' = Some [Text ''Please select a customer'']"
  by (auto simp: CreateInvoice_def z_coerce_number_gt_def z_enum_def z_string_def Let_def
      field_issues_def split: sum.splits option.splits entry.splits if_splits)

lemma create_schema_bad_status:
  "s \<noteq> Some (StrV ''pending'') \<Longrightarrow> s \<noteq> Some (StrV ''paid'') \<Longrightarrow>
   \<exists>fe. CreateInvoice c a s = Inl fe \<and> map_of fe ''status'' \<noteq> None"
  by (auto simp: CreateInvoice_def z_coerce_number_gt_def z_enum_def z_string_def Let_def
      field_issues_def split: sum.splits option.splits entry.splits if_splits)


lemma users_sent [simp]: "users (sent s w) = users w"
  by (simp add: sent_def)

lemma statements_sent [simp]: "statements (sent s w) = statements w @ [s]"
  by (simp add: sent_def)

lemma actions_signup_fresh:
  assumes v: "actions_SignupSchema L (fd_get fd ''name'') (fd_get fd ''email'')
                (fd_get fd ''password'') = Inr (n, e, p)"
    and f: "\<forall>r\<in>set (users w). u_name r \<noteq> Some n \<and> u_email r \<noteq> e"
    and h: "healthy 3 w"
  shows "actions_signup L ps fd w =
     (Ret \<lparr>errors = None, message = Some ''Database Error: Failed to create user.''\<rparr>,
      w\<lparr>statements := statements w @
            [SelectName n, SelectEmail e, InsertUser (Some n) e (bcrypt_hash L p 10)],
        faults := tl (tl (tl (faults w))),
        users := users w @ [\<lparr>u_name = Some n, u_email = e, u_password = bcrypt_hash L p 10\<rparr>],
        console := console w @ [(''Signup Error:'', NextRedirect ''/login'')]\<rparr>)"
proof -
  have h3: "healthy (Suc 2) w" using h by (simp add: numeral_3_eq_3 numeral_2_eq_2)
  have h2: "healthy (Suc 1) (sent (SelectName n) w)"
    using healthy_sent [OF h3] by (simp add: numeral_2_eq_2)
  have h1: "healthy (Suc 0) (sent (SelectEmail e) (sent (SelectName n) w))"
    using healthy_sent [OF h2] by simp
  have s1: "sql (SelectName n) w = (Norm [], sent (SelectName n) w)"
    using sql_healthy [OF h3, of "SelectName n"] f by (simp add: filter_empty_conv)
  have s2: "sql (SelectEmail e) (sent (SelectName n) w) =
      (Norm [], sent (SelectEmail e) (sent (SelectName n) w))"
    using sql_healthy [OF h2, of "SelectEmail e"] f by (simp add: filter_empty_conv)
  note s3 = sql_healthy [OF h1, of "InsertUser (Some n) e (bcrypt_hash L p 10)"]
  show ?thesis
    apply (simp add: actions_signup_def v ctl s1 s2 s3)
    apply (simp add: sent_def)
    done
qed


lemma sql_eq:
  "sql s w = (if fault_next w then (Thr DatabaseError, sent s w)
              else (Norm (fst (exec_stmt s (sent s w))), snd (exec_stmt s (sent s w))))"
  by (cases "faults w")
     (auto simp: sql_def sent_def fault_next_def Let_def split: prod.splits bool.splits)

lemma healthy_no_fault: "healthy (Suc n) w \<Longrightarrow> \<not> fault_next w"
  by (cases "faults w") (auto simp: healthy_def fault_next_def)

lemma signup_signup_fresh:
  assumes v: "signup_SignupSchema L (fd_get fd ''email'') (fd_get fd ''password'') = Inr (e, p)"
    and f: "\<forall>r\<in>set (users w). u_email r \<noteq> e"
    and h: "healthy 2 w"
  shows "signup_signup L ps fd w =
     (Ret \<lparr>errors = None, message = Some ''User created successfully!''\<rparr>,
      w\<lparr>statements := statements w @ [SelectEmail e, InsertUser None e (bcrypt_hash L p 10)],
        faults := tl (tl (faults w)),
        users := users w @ [\<lparr>u_name = None, u_email = e, u_password = bcrypt_hash L p 10\<rparr>]\<rparr>)"
proof -
  have h2: "healthy (Suc 1) w" using h by (simp add: numeral_2_eq_2)
  have h1: "healthy (Suc 0) (sent (SelectEmail e) w)"
    using healthy_sent [OF h2] by simp
  have s1: "sql (SelectEmail e) w = (Norm [], sent (SelectEmail e) w)"
    using sql_healthy [OF h2, of "SelectEmail e"] f by (simp add: filter_empty_conv)
  note s2 = sql_healthy [OF h1, of "InsertUser None e (bcrypt_hash L p 10)"]
  show ?thesis
    apply (simp add: signup_signup_def v ctl s1 s2)
    apply (simp add: sent_def)
    done
qed

lemma actions_signup_dup:
  assumes v: "actions_SignupSchema L (fd_get fd ''name'') (fd_get fd ''email'')
                (fd_get fd ''password'') = Inr (n, e, p)"
    and d: "(\<exists>r\<in>set (users w). u_name r = Some n) \<or> (\<exists>r\<in>set (users w). u_email r = e)"
    and h: "healthy 2 w"
  shows "actions_signup L ps fd w =
     (if \<exists>r\<in>set (users w). u_name r = Some n
      then (Ret \<lparr>errors = None, message = Some ''User already exists with this name.''\<rparr>,
            w\<lparr>statements := statements w @ [SelectName n], faults := tl (faults w)\<rparr>)
      else (Ret \<lparr>errors = None, message = Some ''User already exists with this email.''\<rparr>,
            w\<lparr>statements := statements w @ [SelectName n, SelectEmail e],
              faults := tl (tl (faults w))\<rparr>))"
proof -
  have h2: "healthy (Suc 1) w" using h by (simp add: numeral_2_eq_2)
  have h1: "healthy (Suc 0) (sent (SelectName n) w)"
    using healthy_sent [OF h2] by simp
  note s1 = sql_healthy [OF h2, of "SelectName n"]
  note s2 = sql_healthy [OF h1, of "SelectEmail e"]
  show ?thesis
  proof (cases "\<exists>r\<in>set (users w). u_name r = Some n")
    case True
    then have "filter (\<lambda>r. u_name r = Some n) (users w) \<noteq> []"
      by (simp add: filter_empty_conv)
    then show ?thesis using True
      apply (simp add: actions_signup_def v ctl s1)
      apply (simp add: sent_def)
      done
  next
    case False
    then have a: "filter (\<lambda>r. u_name r = Some n) (users w) = []"
      by (simp add: filter_empty_conv)
    from False d have "\<exists>r\<in>set (users w). u_email r = e" by blast
    then have b: "filter (\<lambda>r. u_email r = e) (users w) \<noteq> []"
      by (simp add: filter_empty_conv)
    show ?thesis using False a b
      apply (simp add: actions_signup_def v ctl s1 s2)
      apply (simp add: sent_def)
      done
  qed
qed

lemma signup_signup_dup:
  assumes v: "signup_SignupSchema L (fd_get fd ''email'') (fd_get fd ''password'') = Inr (e, p)"
    and d: "\<exists>r\<in>set (users w). u_email r = e"
    and h: "healthy 1 w"
  shows "signup_signup L ps fd w =
     (Ret \<lparr>errors = None, message = Some ''User already exists with this email.''\<rparr>,
      w\<lparr>statements := statements w @ [SelectEmail e], faults := tl (faults w)\<rparr>)"
proof -
  have h1: "healthy (Suc 0) w" using h by simp
  note s1 = sql_healthy [OF h1, of "SelectEmail e"]
  from d have b: "filter (\<lambda>r. u_email r = e) (users w) \<noteq> []"
    by (simp add: filter_empty_conv)
  show ?thesis using b
    apply (simp add: signup_signup_def v ctl s1)
    apply (simp add: sent_def)
    done
qed

lemma createInvoice_valid:
  assumes v: "CreateInvoice (fd_get fd ''customerId'') (fd_get fd ''amount'')
                (fd_get fd ''status'') = Inr (c, a, s)"
  shows "createInvoice ps fd w =
     (if fault_next w
      then (Ret \<lparr>errors = None, message = Some ''Database Error: Failed to Create Invoice.''\<rparr>,
            w\<lparr>statements := statements w @
                  [InsertInvoice c (js_mul a (Fin 100)) s (split_T_0 (now w))],
              faults := tl (faults w),
              console := console w @ [(''Error:'', DatabaseError)]\<rparr>)
      else (Thr (NextRedirect ''/dashboard/invoices''),
            w\<lparr>statements := statements w @
                  [InsertInvoice c (js_mul a (Fin 100)) s (split_T_0 (now w))],
              faults := tl (faults w),
              invoices := invoices w @
                  [\<lparr>inv_id = None, inv_customer_id = c, inv_amount = js_mul a (Fin 100),
                    inv_status = s, inv_date = split_T_0 (now w)\<rparr>],
              revalidated := revalidated w @ [''/dashboard/invoices'']\<rparr>))"
  apply (simp add: createInvoice_def v ctl sql_eq)
  apply (simp add: sent_def)
  done

lemma updateInvoice_valid:
  assumes v: "Updateinvoice (fd_get fd ''custmerId'') (fd_get fd ''amount'')
                (fd_get fd ''status'') = Inr (c, a, s)"
  shows "updateInvoice i ps fd w =
     (if fault_next w
      then (Ret \<lparr>errors = None, message = Some ''Database Error: Failed to Update Invoice''\<rparr>,
            w\<lparr>statements := statements w @ [UpdateInvoice c (js_mul a (Fin 100)) s i],
              faults := tl (faults w)\<rparr>)
      else (Thr (NextRedirect ''/dashboard/invoices''),
            w\<lparr>statements := statements w @ [UpdateInvoice c (js_mul a (Fin 100)) s i],
              faults := tl (faults w),
              invoice := map (\<lambda>r. if inv_id r = Some i
                 then r\<lparr>inv_customer_id := c, inv_amount := js_mul a (Fin 100), inv_status := s\<rparr>
                 else r) (invoice w),
              revalidated := revalidated w @ [''/dashboard/invoices'']\<rparr>))"
  apply (simp add: updateInvoice_def v ctl sql_eq)
  apply (simp add: sent_def)
  done

lemma actions_signup_valid_returns:
  assumes v: "actions_SignupSchema L (fd_get fd ''name'') (fd_get fd ''email'')
                (fd_get fd ''password'') = Inr (n, e, p)"
  shows "\<exists>m. fst (actions_signup L ps fd w) = Ret \<lparr>errors = None, message = Some m\<rparr>"
  by (simp add: actions_signup_def v ctl sql_eq)

lemma signup_signup_valid_returns:
  assumes v: "signup_SignupSchema L (fd_get fd ''email'') (fd_get fd ''password'') = Inr (e, p)"
  shows "\<exists>m. fst (signup_signup L ps fd w) = Ret \<lparr>errors = None, message = Some m\<rparr>"
  by (simp add: signup_signup_def v ctl sql_eq)

lemma sample_actions_valid:
  "actions_SignupSchema sample_libs (fd_get signup_form ''name'') (fd_get signup_form ''email'')
     (fd_get signup_form ''password'') = Inr (''bob'', ''a@b.com'', ''secret'')"
  by (simp add: actions_SignupSchema_Inr fd_get_def signup_form_def sample_libs_def)

lemma sample_signup_valid:
  "signup_SignupSchema sample_libs (fd_get signup_form ''email'') (fd_get signup_form ''password'')
     = Inr (''a@b.com'', ''secret'')"
  by (simp add: signup_SignupSchema_Inr fd_get_def signup_form_def sample_libs_def)

lemma actions_signup_bad_email:
  assumes "fd_get fd ''email'' = Some (StrV x)" "\<not> is_email L x"
  shows "\<exists>fe. actions_signup L ps fd w =
              (Ret \<lparr>errors = Some fe, message = Some ''Invalid fields.''\<rparr>, w)
            \<and> map_of fe ''email'' = Some [Text ''Invalid email address'']"
proof -
  from actions_schema_bad_email [OF assms]
  obtain fe where "actions_SignupSchema L (fd_get fd ''name'') (fd_get fd ''email'')
      (fd_get fd ''password'') = Inl fe"
    and m: "map_of fe ''email'' = Some [Text ''Invalid email address'']"
    by blast
  from actions_signup_invalid [OF this(1)] m show ?thesis by blast
qed

lemma actions_signup_short_password:
  assumes "fd_get fd ''password'' = Some (StrV y)" "length y < 6"
  shows "\<exists>fe. actions_signup L ps fd w =
              (Ret \<lparr>errors = Some fe, message = Some ''Invalid fields.''\<rparr>, w)
            \<and> map_of fe ''password''
                = Some [Text ''Password must be at least 6 characters long'']"
proof -
  from actions_schema_short_password [OF assms]
  obtain fe where "actions_SignupSchema L (fd_get fd ''name'') (fd_get fd ''email'')
      (fd_get fd ''password'') = Inl fe"
    and m: "map_of fe ''password'' = Some [Text ''Password must be at least 6 characters long'']"
    by blast
  from actions_signup_invalid [OF this(1)] m show ?thesis by blast
qed

lemma signup_signup_bad_email:
  assumes "fd_get fd ''email'' = Some (StrV x)" "\<not> is_email L x"
  shows "\<exists>fe. signup_signup L ps fd w =
              (Ret \<lparr>errors = Some fe, message = Some ''Invalid fields.''\<rparr>, w)
            \<and> map_of fe ''email'' = Some [Text ''Invalid email address'']"
proof -
  from signup_schema_bad_email [OF assms]
  obtain fe where "signup_SignupSchema L (fd_get fd ''email'') (fd_get fd ''password'') = Inl fe"
    and m: "map_of fe ''email'' = Some [Text ''Invalid email address'']"
    by blast
  from signup_signup_invalid [OF this(1)] m show ?thesis by blast
qed

lemma signup_signup_short_password:
  assumes "fd_get fd ''password'' = Some (StrV y)" "length y < 6"
  shows "\<exists>fe. signup_signup L ps fd w =
              (Ret \<lparr>errors = Some fe, message = Some ''Invalid fields.''\<rparr>, w)
            \<and> map_of fe ''password'' = Some [Text ''Password must be at least 6 characters'']"
proof -
  from signup_schema_short_password [OF assms]
  obtain fe where "signup_SignupSchema L (fd_get fd ''email'') (fd_get fd ''password'') = Inl fe"
    and m: "map_of fe ''password'' = Some [Text ''Password must be at least 6 characters'']"
    by blast
  from signup_signup_invalid [OF this(1)] m show ?thesis by blast
qed

lemma createInvoice_bad_amount:
  assumes "js_le (Number (fd_get fd ''amount'')) (Fin 0)"
  shows "\<exists>fe. createInvoice ps fd w =
              (Ret \<lparr>errors = Some fe,
                     message = Some ''Missing Fields. Failed to Create invoice.''\<rparr>, w)
            \<and> map_of fe ''amount'' = Some [Text ''Please enter an amount greater than $0'']"
proof -
  from create_schema_bad_amount [OF assms]
  obtain fe where "CreateInvoice (fd_get fd ''customerId'') (fd_get fd ''amount'')
      (fd_get fd ''status'') = Inl fe"
    and m: "map_of fe ''amount'' = Some [Text ''Please enter an amount greater than $0'']"
    by blast
  from createInvoice_invalid [OF this(1)] m show ?thesis by blast
qed

lemma createInvoice_no_customer:
  assumes "fd_get fd ''customerId'' = None"
  shows "\<exists>fe. createInvoice ps fd w =
              (Ret \<lparr>errors = Some fe,
                     message = Some ''Missing Fields. Failed to Create invoice.''\<rparr>, w)
            \<and> map_of fe ''customerId'' = Some [Text ''Please select a customer'']"
proof -
  from create_schema_no_customer [OF assms]
  obtain fe where "CreateInvoice (fd_get fd ''customerId'') (fd_get fd ''amount'')
      (fd_get fd ''status'') = Inl fe"
    and m: "map_of fe ''customerId'' = Some [Text ''Please select a customer'']"
    by blast
  from createInvoice_invalid [OF this(1)] m show ?thesis by blast
qed

lemma createInvoice_bad_status:
  assumes "fd_get fd ''status'' \<noteq> Some (StrV ''pending'')"
    "fd_get fd ''status'' \<noteq> Some (StrV ''paid'')"
  shows "\<exists>fe. createInvoice ps fd w =
              (Ret \<lparr>errors = Some fe,
                     message = Some ''Missing Fields. Failed to Create invoice.''\<rparr>, w)
            \<and> map_of fe ''status'' \<noteq> None"
proof -
  from create_schema_bad_status [OF assms]
  obtain fe where "CreateInvoice (fd_get fd ''customerId'') (fd_get fd ''amount'')
      (fd_get fd ''status'') = Inl fe"
    and m: "map_of fe ''status'' \<noteq> None"
    by blast
  from createInvoice_invalid [OF this(1)] m show ?thesis by blast
qed

lemmas parse_defs = StringToNumber_def trim_def is_ws_def parse_signed_def parse_unsigned_def
  is_dig_def parse_exponent_def scale10_def digit_of_def

lemma round64_19_99: "round64 (1999 / 100) = Fin (5626684784446013 / 281474976710656)"
  by code_simp

lemma round64_12_50: "round64 (25 / 2) = Fin (25 / 2)"
  by code_simp

lemma round64_minus_5: "round64 (- 5) = Fin (- 5)"
  by code_simp

lemma Number_19_99: "StringToNumber ''19.99'' = Fin (5626684784446013 / 281474976710656)"
  by (simp add: parse_defs round64_19_99)

lemma Number_12_50: "StringToNumber ''12.50'' = Fin (25 / 2)"
  by (simp add: parse_defs round64_12_50)

lemma mul_19_99:
  "js_mul (Fin (5626684784446013 / 281474976710656)) (Fin 100)
     = Fin (8791694975696895 / 4398046511104)"
  by code_simp

lemma mul_12_50: "js_mul (Fin (25 / 2)) (Fin 100) = Fin 1250"
  by code_simp

lemma sample_bad_invoice_amount:
  "js_le (Number (fd_get bad_invoice_form ''amount'')) (Fin 0)"
  by (simp add: bad_invoice_form_def fd_get_def Number_def parse_defs round64_minus_5 js_le_def)

lemma actions_signup_errors_iff:
  "returned_with_errors (fst (actions_signup L ps fd w)) =
     isl (actions_SignupSchema L (fd_get fd ''name'') (fd_get fd ''email'') (fd_get fd ''password''))
 \<and> returned_message_only (fst (actions_signup L ps fd w)) =
     (\<not> isl (actions_SignupSchema L (fd_get fd ''name'') (fd_get fd ''email'')
         (fd_get fd ''password'')))"
proof (cases "actions_SignupSchema L (fd_get fd ''name'') (fd_get fd ''email'')
    (fd_get fd ''password'')")
  case (Inl fe)
  from actions_signup_invalid [OF this, of ps w] Inl show ?thesis
    by (simp add: returned_with_errors_def returned_message_only_def)
next
  case (Inr t)
  obtain n e p where "t = (n, e, p)" by (cases t) auto
  with Inr have "actions_SignupSchema L (fd_get fd ''name'') (fd_get fd ''email'')
    (fd_get fd ''password'') = Inr (n, e, p)" by simp
  from actions_signup_valid_returns [OF this, of ps w] Inr show ?thesis
    by (auto simp: returned_with_errors_def returned_message_only_def)
qed

lemma signup_signup_errors_iff:
  "returned_with_errors (fst (signup_signup L ps fd w)) =
     isl (signup_SignupSchema L (fd_get fd ''email'') (fd_get fd ''password''))
 \<and> returned_message_only (fst (signup_signup L ps fd w)) =
     (\<not> isl (signup_SignupSchema L (fd_get fd ''email'') (fd_get fd ''password'')))"
proof (cases "signup_SignupSchema L (fd_get fd ''email'') (fd_get fd ''password'')")
  case (Inl fe)
  from signup_signup_invalid [OF this, of ps w] Inl show ?thesis
    by (simp add: returned_with_errors_def returned_message_only_def)
next
  case (Inr t)
  obtain e p where "t = (e, p)" by (cases t) auto
  with Inr have "signup_SignupSchema L (fd_get fd ''email'') (fd_get fd ''password'')
     = Inr (e, p)" by simp
  from signup_signup_valid_returns [OF this, of ps w] Inr show ?thesis
    by (auto simp: returned_with_errors_def returned_message_only_def)
qed

lemma full_form_valid:
  "\<not> isl (actions_SignupSchema sample_libs (fd_get full_form ''name'') (fd_get full_form ''email'')
         (fd_get full_form ''password''))"
  "\<not> isl (signup_SignupSchema sample_libs (fd_get full_form ''email'')
         (fd_get full_form ''password''))"
  "\<not> isl (CreateInvoice (fd_get full_form ''customerId'') (fd_get full_form ''amount'')
         (fd_get full_form ''status''))"
  "\<not> isl (Updateinvoice (fd_get full_form ''custmerId'') (fd_get full_form ''amount'')
         (fd_get full_form ''status''))"
proof -
  have "actions_SignupSchema sample_libs (fd_get full_form ''name'') (fd_get full_form ''email'')
         (fd_get full_form ''password'') = Inr (''bob'', ''a@b.com'', ''secret'')"
    by (simp add: actions_SignupSchema_Inr fd_get_def full_form_def sample_libs_def)
  then show "\<not> isl (actions_SignupSchema sample_libs (fd_get full_form ''name'')
         (fd_get full_form ''email'') (fd_get full_form ''password''))" by simp
  have "signup_SignupSchema sample_libs (fd_get full_form ''email'')
         (fd_get full_form ''password'') = Inr (''a@b.com'', ''secret'')"
    by (simp add: signup_SignupSchema_Inr fd_get_def full_form_def sample_libs_def)
  then show "\<not> isl (signup_SignupSchema sample_libs (fd_get full_form ''email'')
         (fd_get full_form ''password''))" by simp
  have c: "CreateInvoice (fd_get full_form ''customerId'') (fd_get full_form ''amount'')
         (fd_get full_form ''status'') = Inr (''c1'', Fin (25 / 2), ''paid'')"
    by (simp add: CreateInvoice_Inr fd_get_def full_form_def Number_def Number_12_50 js_le_def)
  then show "\<not> isl (CreateInvoice (fd_get full_form ''customerId'') (fd_get full_form ''amount'')
         (fd_get full_form ''status''))" by simp
  have "Updateinvoice (fd_get full_form ''custmerId'') (fd_get full_form ''amount'')
         (fd_get full_form ''status'') = Inr (''c1'', Fin (25 / 2), ''paid'')"
    by (simp add: Updateinvoice_def CreateInvoice_Inr fd_get_def full_form_def Number_def
        Number_12_50 js_le_def)
  then show "\<not> isl (Updateinvoice (fd_get full_form ''custmerId'') (fd_get full_form ''amount'')
         (fd_get full_form ''status''))" by simp
qed

lemma empty_form_invalid:
  "isl (actions_SignupSchema sample_libs (fd_get [] ''name'') (fd_get [] ''email'')
         (fd_get [] ''password''))"
  "isl (signup_SignupSchema sample_libs (fd_get [] ''email'') (fd_get [] ''password''))"
  "isl (CreateInvoice (fd_get [] ''customerId'') (fd_get [] ''amount'') (fd_get [] ''status''))"
  "isl (Updateinvoice (fd_get [] ''custmerId'') (fd_get [] ''amount'') (fd_get [] ''status''))"
  by (simp_all add: actions_SignupSchema_def signup_SignupSchema_def Updateinvoice_def
      CreateInvoice_def fd_get_def z_string_def z_min_def z_email_def z_check_def Let_def
      split: sum.splits)

lemma invoice_form_12_50_valid:
  "CreateInvoice (fd_get (invoice_form ''12.50'') ''customerId'')
     (fd_get (invoice_form ''12.50'') ''amount'') (fd_get (invoice_form ''12.50'') ''status'')
   = Inr (''c1'', Fin (25 / 2), ''pending'')"
  by (simp add: CreateInvoice_Inr fd_get_def invoice_form_def Number_def Number_12_50 js_le_def)

lemma empty_world_date: "split_T_0 (now empty_world) = ''2024-05-01''"
  by (simp add: split_T_0_def empty_world_def)

lemma actions_signup_never_redirects:
  "\<exists>obj. fst (actions_signup L ps fd w) = Ret obj"
proof (cases "actions_SignupSchema L (fd_get fd ''name'') (fd_get fd ''email'')
    (fd_get fd ''password'')")
  case (Inl fe)
  from actions_signup_invalid [OF this, of ps w] show ?thesis by simp
next
  case (Inr t)
  obtain n e p where "t = (n, e, p)" by (cases t) auto
  with Inr have "actions_SignupSchema L (fd_get fd ''name'') (fd_get fd ''email'')
    (fd_get fd ''password'') = Inr (n, e, p)" by simp
  from actions_signup_valid_returns [OF this, of ps w] show ?thesis by auto
qed

lemma invoice_form_19_99_valid:
  "CreateInvoice (fd_get (invoice_form ''19.99'') ''customerId'')
     (fd_get (invoice_form ''19.99'') ''amount'') (fd_get (invoice_form ''19.99'') ''status'')
   = Inr (''c1'', Fin (5626684784446013 / 281474976710656), ''pending'')"
  by (simp add: CreateInvoice_Inr fd_get_def invoice_form_def Number_def Number_19_99 js_le_def)

lemma createInvoice_amount_times_100:
  assumes v: "CreateInvoice (fd_get fd ''customerId'') (fd_get fd ''amount'')
      (fd_get fd ''status'') = Inr (c, a, s)"
  shows "a = Number (fd_get fd ''amount'')"
    and "statements (snd (createInvoice ps fd w)) =
         statements w @ [InsertInvoice c (js_mul a (Fin 100)) s (split_T_0 (now w))]"
    and "healthy 1 w \<Longrightarrow> invoices (snd (createInvoice ps fd w)) =
         invoices w @ [\<lparr>inv_id = None, inv_customer_id = c, inv_amount = js_mul a (Fin 100),
                        inv_status = s, inv_date = split_T_0 (now w)\<rparr>]"
proof -
  from v show "a = Number (fd_get fd ''amount'')"
    by (simp add: CreateInvoice_Inr)
  show "statements (snd (createInvoice ps fd w)) =
         statements w @ [InsertInvoice c (js_mul a (Fin 100)) s (split_T_0 (now w))]"
    by (simp add: createInvoice_valid [OF v])
  assume "healthy 1 w"
  then have "\<not> fault_next w" using healthy_no_fault [of 0 w] by simp
  then show "invoices (snd (createInvoice ps fd w)) =
         invoices w @ [\<lparr>inv_id = None, inv_customer_id = c, inv_amount = js_mul a (Fin 100),
                        inv_status = s, inv_date = split_T_0 (now w)\<rparr>]"
    by (simp add: createInvoice_valid [OF v])
qed

lemma createInvoice_12_50:
  "statements (snd (createInvoice no_state (invoice_form ''12.50'') empty_world))
   = [InsertInvoice ''c1'' (Fin 1250) ''pending'' ''2024-05-01'']
 \<and> invoices (snd (createInvoice no_state (invoice_form ''12.50'') empty_world))
   = [\<lparr>inv_id = None, inv_customer_id = ''c1'', inv_amount = Fin 1250,
       inv_status = ''pending'', inv_date = ''2024-05-01''\<rparr>]"
proof -
  have h: "healthy 1 empty_world"
    by (simp add: healthy_def empty_world_def)
  have e: "statements empty_world = [] \<and> invoices empty_world = []"
    by (simp add: empty_world_def)
  from createInvoice_amount_times_100 (2, 3) [OF invoice_form_12_50_valid,
      where ps = no_state and w = empty_world] h e
  show ?thesis by (simp add: empty_world_date mul_12_50 del: js_mul.simps)
qed

lemma createInvoice_outcomes:
  "returned_with_errors (fst (createInvoice ps fd w)) =
     isl (CreateInvoice (fd_get fd ''customerId'') (fd_get fd ''amount'') (fd_get fd ''status''))
 \<and> returned_message_only (fst (createInvoice ps fd w)) =
     (\<not> isl (CreateInvoice (fd_get fd ''customerId'') (fd_get fd ''amount'')
         (fd_get fd ''status'')) \<and> fault_next w)
 \<and> (fst (createInvoice ps fd w) =
       Ret \<lparr>errors = None, message = Some ''Database Error: Failed to Create Invoice.''\<rparr>) =
     (\<not> isl (CreateInvoice (fd_get fd ''customerId'') (fd_get fd ''amount'')
         (fd_get fd ''status'')) \<and> fault_next w)
 \<and> (fst (createInvoice ps fd w) = Thr (NextRedirect ''/dashboard/invoices'')) =
     (\<not> isl (CreateInvoice (fd_get fd ''customerId'') (fd_get fd ''amount'')
         (fd_get fd ''status'')) \<and> \<not> fault_next w)"
proof (cases "CreateInvoice (fd_get fd ''customerId'') (fd_get fd ''amount'')
    (fd_get fd ''status'')")
  case (Inl fe)
  from createInvoice_invalid [OF this, of ps w] Inl show ?thesis
    by (simp add: returned_with_errors_def returned_message_only_def)
next
  case (Inr t)
  obtain c a s where "t = (c, a, s)" by (cases t) auto
  with Inr have v: "CreateInvoice (fd_get fd ''customerId'') (fd_get fd ''amount'')
    (fd_get fd ''status'') = Inr (c, a, s)" by simp
  show ?thesis
    by (simp add: createInvoice_valid [OF v] v returned_with_errors_def
        returned_message_only_def)
qed

lemma updateInvoice_outcomes:
  "returned_with_errors (fst (updateInvoice i ps fd w)) =
     isl (Updateinvoice (fd_get fd ''custmerId'') (fd_get fd ''amount'') (fd_get fd ''status''))
 \<and> returned_message_only (fst (updateInvoice i ps fd w)) =
     (\<not> isl (Updateinvoice (fd_get fd ''custmerId'') (fd_get fd ''amount'')
         (fd_get fd ''status'')) \<and> fault_next w)
 \<and> (fst (updateInvoice i ps fd w) =
       Ret \<lparr>errors = None, message = Some ''Database Error: Failed to Update Invoice''\<rparr>) =
     (\<not> isl (Updateinvoice (fd_get fd ''custmerId'') (fd_get fd ''amount'')
         (fd_get fd ''status'')) \<and> fault_next w)
 \<and> (fst (updateInvoice i ps fd w) = Thr (NextRedirect ''/dashboard/invoices'')) =
     (\<not> isl (Updateinvoice (fd_get fd ''custmerId'') (fd_get fd ''amount'')
         (fd_get fd ''status'')) \<and> \<not> fault_next w)"
proof (cases "Updateinvoice (fd_get fd ''custmerId'') (fd_get fd ''amount'')
    (fd_get fd ''status'')")
  case (Inl fe)
  from updateInvoice_invalid [OF this, of i ps w] Inl show ?thesis
    by (simp add: returned_with_errors_def returned_message_only_def)
next
  case (Inr t)
  obtain c a s where "t = (c, a, s)" by (cases t) auto
  with Inr have v: "Updateinvoice (fd_get fd ''custmerId'') (fd_get fd ''amount'')
    (fd_get fd ''status'') = Inr (c, a, s)" by simp
  show ?thesis
    by (simp add: updateInvoice_valid [OF v] v returned_with_errors_def
        returned_message_only_def)
qed

section \<open>The properties\<close>

text \<open>
  C1. A signup submission that passes the schema and whose email (and, in
  \<^verbatim>\<open>app/lib/actions.ts\<close>, whose name) matches no row of \<open>users\<close> makes the handler hash
  the password at cost factor 10 and send exactly one \<^verbatim>\<open>INSERT\<close>, which adds exactly one
  row; the password column of that row is the hash, which verifies against the submitted
  password and differs from it. The database is taken to execute the statements of the call,
  and the hashing library to produce a hash that verifies and is not its input.
\<close>

theorem signup_inserts_one_hashed_row:
  "(actions_SignupSchema L (fd_get fd ''name'') (fd_get fd ''email'') (fd_get fd ''password'')
        = Inr (n, e, p)
      \<and> (\<forall>r\<in>set (users w). u_name r \<noteq> Some n \<and> u_email r \<noteq> e)
      \<and> healthy 3 w
      \<and> bcrypt_compare L p (bcrypt_hash L p 10) \<and> bcrypt_hash L p 10 \<noteq> p
    \<longrightarrow> (\<exists>h. users (snd (actions_signup L ps fd w)) =
                users w @ [\<lparr>u_name = Some n, u_email = e, u_password = h\<rparr>]
           \<and> statements (snd (actions_signup L ps fd w)) =
                statements w @ [SelectName n, SelectEmail e, InsertUser (Some n) e h]
           \<and> h = bcrypt_hash L p 10 \<and> bcrypt_compare L p h \<and> h \<noteq> p))
 \<and> (signup_SignupSchema L (fd_get fd' ''email'') (fd_get fd' ''password'') = Inr (e', p')
      \<and> (\<forall>r\<in>set (users w'). u_email r \<noteq> e')
      \<and> healthy 2 w'
      \<and> bcrypt_compare L p' (bcrypt_hash L p' 10) \<and> bcrypt_hash L p' 10 \<noteq> p'
    \<longrightarrow> (\<exists>h. users (snd (signup_signup L ps' fd' w')) =
                users w' @ [\<lparr>u_name = None, u_email = e', u_password = h\<rparr>]
           \<and> statements (snd (signup_signup L ps' fd' w')) =
                statements w' @ [SelectEmail e', InsertUser None e' h]
           \<and> h = bcrypt_hash L p' 10 \<and> bcrypt_compare L p' h \<and> h \<noteq> p'))"
proof (intro conjI impI)
  assume a: "actions_SignupSchema L (fd_get fd ''name'') (fd_get fd ''email'')
        (fd_get fd ''password'') = Inr (n, e, p)
      \<and> (\<forall>r\<in>set (users w). u_name r \<noteq> Some n \<and> u_email r \<noteq> e)
      \<and> healthy 3 w
      \<and> bcrypt_compare L p (bcrypt_hash L p 10) \<and> bcrypt_hash L p 10 \<noteq> p"
  then have "actions_signup L ps fd w =
     (Ret \<lparr>errors = None, message = Some ''Database Error: Failed to create user.''\<rparr>,
      w\<lparr>statements := statements w @
            [SelectName n, SelectEmail e, InsertUser (Some n) e (bcrypt_hash L p 10)],
        faults := tl (tl (tl (faults w))),
        users := users w @ [\<lparr>u_name = Some n, u_email = e, u_password = bcrypt_hash L p 10\<rparr>],
        console := console w @ [(''Signup Error:'', NextRedirect ''/login'')]\<rparr>)"
    by (intro actions_signup_fresh) simp_all
  with a show "\<exists>h. users (snd (actions_signup L ps fd w)) =
                users w @ [\<lparr>u_name = Some n, u_email = e, u_password = h\<rparr>]
           \<and> statements (snd (actions_signup L ps fd w)) =
                statements w @ [SelectName n, SelectEmail e, InsertUser (Some n) e h]
           \<and> h = bcrypt_hash L p 10 \<and> bcrypt_compare L p h \<and> h \<noteq> p"
    by simp
next
  assume a: "signup_SignupSchema L (fd_get fd' ''email'') (fd_get fd' ''password'') = Inr (e', p')
      \<and> (\<forall>r\<in>set (users w'). u_email r \<noteq> e')
      \<and> healthy 2 w'
      \<and> bcrypt_compare L p' (bcrypt_hash L p' 10) \<and> bcrypt_hash L p' 10 \<noteq> p'"
  then have "signup_signup L ps' fd' w' =
     (Ret \<lparr>errors = None, message = Some ''User created successfully!''\<rparr>,
      w'\<lparr>statements := statements w' @ [SelectEmail e', InsertUser None e' (bcrypt_hash L p' 10)],
        faults := tl (tl (faults w')),
        users := users w' @ [\<lparr>u_name = None, u_email = e', u_password = bcrypt_hash L p' 10\<rparr>]\<rparr>)"
    by (intro signup_signup_fresh) simp_all
  with a show "\<exists>h. users (snd (signup_signup L ps' fd' w')) =
                users w' @ [\<lparr>u_name = None, u_email = e', u_password = h\<rparr>]
           \<and> statements (snd (signup_signup L ps' fd' w')) =
                statements w' @ [SelectEmail e', InsertUser None e' h]
           \<and> h = bcrypt_hash L p' 10 \<and> bcrypt_compare L p' h \<and> h \<noteq> p'"
    by simp
qed

theorem signup_inserts_one_hashed_row_witness:
  "actions_SignupSchema sample_libs (fd_get signup_form ''name'') (fd_get signup_form ''email'')
     (fd_get signup_form ''password'') = Inr (''bob'', ''a@b.com'', ''secret'')
   \<and> users (snd (actions_signup sample_libs no_state signup_form empty_world)) =
       [\<lparr>u_name = Some ''bob'', u_email = ''a@b.com'', u_password = ''$2b$terces''\<rparr>]
   \<and> signup_SignupSchema sample_libs (fd_get signup_form ''email'')
       (fd_get signup_form ''password'') = Inr (''a@b.com'', ''secret'')
   \<and> users (snd (signup_signup sample_libs no_state signup_form empty_world)) =
       [\<lparr>u_name = None, u_email = ''a@b.com'', u_password = ''$2b$terces''\<rparr>]"
  using signup_inserts_one_hashed_row [of sample_libs signup_form "''bob''" "''a@b.com''"
      "''secret''" empty_world no_state signup_form "''a@b.com''" "''secret''" empty_world no_state]
    sample_actions_valid sample_signup_valid
  by (simp add: healthy_def empty_world_def sample_libs_def)

text \<open>
  C2. A signup submission that passes the schema and whose name (in
  \<^verbatim>\<open>app/lib/actions.ts\<close>) or email is already held by a row of \<open>users\<close> makes the
  handler return an ``already exists'' message. The only statements sent are the
  \<^verbatim>\<open>SELECT\<close>s of the existence checks, so no \<^verbatim>\<open>INSERT\<close> is sent and every table
  is as before. The database is taken to execute the existence checks.
\<close>

theorem signup_duplicate_no_insert:
  "(actions_SignupSchema L (fd_get fd ''name'') (fd_get fd ''email'') (fd_get fd ''password'')
        = Inr (n, e, p)
      \<and> ((\<exists>r\<in>set (users w). u_name r = Some n) \<or> (\<exists>r\<in>set (users w). u_email r = e))
      \<and> healthy 2 w
    \<longrightarrow> actions_signup L ps fd w =
         (if \<exists>r\<in>set (users w). u_name r = Some n
          then (Ret \<lparr>errors = None, message = Some ''User already exists with this name.''\<rparr>,
                w\<lparr>statements := statements w @ [SelectName n], faults := tl (faults w)\<rparr>)
          else (Ret \<lparr>errors = None, message = Some ''User already exists with this email.''\<rparr>,
                w\<lparr>statements := statements w @ [SelectName n, SelectEmail e],
                  faults := tl (tl (faults w))\<rparr>)))
 \<and> (signup_SignupSchema L (fd_get fd' ''email'') (fd_get fd' ''password'') = Inr (e', p')
      \<and> (\<exists>r\<in>set (users w'). u_email r = e')
      \<and> healthy 1 w'
    \<longrightarrow> signup_signup L ps' fd' w' =
         (Ret \<lparr>errors = None, message = Some ''User already exists with this email.''\<rparr>,
          w'\<lparr>statements := statements w' @ [SelectEmail e'], faults := tl (faults w')\<rparr>))"
proof -
  have 1: "actions_SignupSchema L (fd_get fd ''name'') (fd_get fd ''email'') (fd_get fd ''password'')
        = Inr (n, e, p)
      \<and> ((\<exists>r\<in>set (users w). u_name r = Some n) \<or> (\<exists>r\<in>set (users w). u_email r = e))
      \<and> healthy 2 w
    \<longrightarrow> actions_signup L ps fd w =
         (if \<exists>r\<in>set (users w). u_name r = Some n
          then (Ret \<lparr>errors = None, message = Some ''User already exists with this name.''\<rparr>,
                w\<lparr>statements := statements w @ [SelectName n], faults := tl (faults w)\<rparr>)
          else (Ret \<lparr>errors = None, message = Some ''User already exists with this email.''\<rparr>,
                w\<lparr>statements := statements w @ [SelectName n, SelectEmail e],
                  faults := tl (tl (faults w))\<rparr>))"
    using actions_signup_dup [of L fd n e p w ps] by blast
  have 2: "signup_SignupSchema L (fd_get fd' ''email'') (fd_get fd' ''password'') = Inr (e', p')
      \<and> (\<exists>r\<in>set (users w'). u_email r = e')
      \<and> healthy 1 w'
    \<longrightarrow> signup_signup L ps' fd' w' =
         (Ret \<lparr>errors = None, message = Some ''User already exists with this email.''\<rparr>,
          w'\<lparr>statements := statements w' @ [SelectEmail e'], faults := tl (faults w')\<rparr>)"
    using signup_signup_dup [of L fd' e' p' w' ps'] by blast
  from 1 2 show ?thesis by (rule conjI)
qed

theorem signup_duplicate_no_insert_witness:
  "actions_signup sample_libs no_state signup_form bob_world =
      (Ret \<lparr>errors = None, message = Some ''User already exists with this name.''\<rparr>,
       bob_world\<lparr>statements := [SelectName ''bob'']\<rparr>)
   \<and> signup_signup sample_libs no_state signup_form bob_world =
      (Ret \<lparr>errors = None, message = Some ''User already exists with this email.''\<rparr>,
       bob_world\<lparr>statements := [SelectEmail ''a@b.com'']\<rparr>)"
  using signup_duplicate_no_insert [of sample_libs signup_form "''bob''" "''a@b.com''"
      "''secret''" bob_world no_state signup_form "''a@b.com''" "''secret''" bob_world no_state]
    sample_actions_valid sample_signup_valid
  by (simp add: healthy_def empty_world_def bob_world_def)

text \<open>
  C3. A signup submission whose email is not a valid address, or whose password has fewer
  than 6 characters, makes either signup handler return a map of field errors (with the
  field's message) together with the message \<open>Invalid fields.\<close>; an invoice submission
  whose amount is at most 0, that has no \<open>customerId\<close>, or whose status is neither
  \<open>pending\<close> nor \<open>paid\<close> makes \<^verbatim>\<open>createInvoice\<close> return a map of field errors
  together with its generic message. In each case the world is returned unchanged: no
  statement is sent.
\<close>

theorem invalid_input_no_database_call:
  "(fd_get fd ''email'' = Some (StrV x) \<and> \<not> is_email L x
      \<longrightarrow> (\<exists>fe. actions_signup L ps fd w =
              (Ret \<lparr>errors = Some fe, message = Some ''Invalid fields.''\<rparr>, w)
            \<and> map_of fe ''email'' = Some [Text ''Invalid email address''])
        \<and> (\<exists>fe. signup_signup L ps fd w =
              (Ret \<lparr>errors = Some fe, message = Some ''Invalid fields.''\<rparr>, w)
            \<and> map_of fe ''email'' = Some [Text ''Invalid email address'']))
 \<and> (fd_get fd ''password'' = Some (StrV y) \<and> length y < 6
      \<longrightarrow> (\<exists>fe. actions_signup L ps fd w =
              (Ret \<lparr>errors = Some fe, message = Some ''Invalid fields.''\<rparr>, w)
            \<and> map_of fe ''password''
                = Some [Text ''Password must be at least 6 characters long''])
        \<and> (\<exists>fe. signup_signup L ps fd w =
              (Ret \<lparr>errors = Some fe, message = Some ''Invalid fields.''\<rparr>, w)
            \<and> map_of fe ''password'' = Some [Text ''Password must be at least 6 characters'']))
 \<and> (js_le (Number (fd_get fd' ''amount'')) (Fin 0)
      \<longrightarrow> (\<exists>fe. createInvoice ps' fd' w' =
              (Ret \<lparr>errors = Some fe,
                     message = Some ''Missing Fields. Failed to Create invoice.''\<rparr>, w')
            \<and> map_of fe ''amount'' = Some [Text ''Please enter an amount greater than $0'']))
 \<and> (fd_get fd' ''customerId'' = None
      \<longrightarrow> (\<exists>fe. createInvoice ps' fd' w' =
              (Ret \<lparr>errors = Some fe,
                     message = Some ''Missing Fields. Failed to Create invoice.''\<rparr>, w')
            \<and> map_of fe ''customerId'' = Some [Text ''Please select a customer'']))
 \<and> (fd_get fd' ''status'' \<noteq> Some (StrV ''pending'') \<and> fd_get fd' ''status'' \<noteq> Some (StrV ''paid'')
      \<longrightarrow> (\<exists>fe. createInvoice ps' fd' w' =
              (Ret \<lparr>errors = Some fe,
                     message = Some ''Missing Fields. Failed to Create invoice.''\<rparr>, w')
            \<and> map_of fe ''status'' \<noteq> None))"
  using actions_signup_bad_email [of fd x L ps w] signup_signup_bad_email [of fd x L ps w]
    actions_signup_short_password [of fd y L ps w] signup_signup_short_password [of fd y L ps w]
    createInvoice_bad_amount [of fd' ps' w'] createInvoice_no_customer [of fd' ps' w']
    createInvoice_bad_status [of fd' ps' w']
  by blast


theorem invalid_input_no_database_call_witness:
  "(fd_get bad_signup_form ''email'' = Some (StrV ''nowhere'') \<and> \<not> is_email sample_libs ''nowhere'')
   \<and> (fd_get bad_signup_form ''password'' = Some (StrV ''abc'') \<and> length ''abc'' < 6)
   \<and> js_le (Number (fd_get bad_invoice_form ''amount'')) (Fin 0)
   \<and> fd_get bad_invoice_form ''customerId'' = None
   \<and> (fd_get bad_invoice_form ''status'' \<noteq> Some (StrV ''pending'')
      \<and> fd_get bad_invoice_form ''status'' \<noteq> Some (StrV ''paid''))
   \<and> (\<exists>fe. actions_signup sample_libs no_state bad_signup_form empty_world =
          (Ret \<lparr>errors = Some fe, message = Some ''Invalid fields.''\<rparr>, empty_world)
        \<and> map_of fe ''email'' = Some [Text ''Invalid email address''])
   \<and> (\<exists>fe. signup_signup sample_libs no_state bad_signup_form empty_world =
          (Ret \<lparr>errors = Some fe, message = Some ''Invalid fields.''\<rparr>, empty_world)
        \<and> map_of fe ''password'' = Some [Text ''Password must be at least 6 characters''])
   \<and> (\<exists>fe. createInvoice no_state bad_invoice_form empty_world =
          (Ret \<lparr>errors = Some fe,
                 message = Some ''Missing Fields. Failed to Create invoice.''\<rparr>, empty_world)
        \<and> map_of fe ''amount'' = Some [Text ''Please enter an amount greater than $0''])
   \<and> (\<exists>fe. createInvoice no_state bad_invoice_form empty_world =
          (Ret \<lparr>errors = Some fe,
                 message = Some ''Missing Fields. Failed to Create invoice.''\<rparr>, empty_world)
        \<and> map_of fe ''customerId'' = Some [Text ''Please select a customer''])
   \<and> (\<exists>fe. createInvoice no_state bad_invoice_form empty_world =
          (Ret \<lparr>errors = Some fe,
                 message = Some ''Missing Fields. Failed to Create invoice.''\<rparr>, empty_world)
        \<and> map_of fe ''status'' \<noteq> None)"
proof -
  have h1: "fd_get bad_signup_form ''email'' = Some (StrV ''nowhere'')
      \<and> \<not> is_email sample_libs ''nowhere''"
    by (simp add: bad_signup_form_def fd_get_def sample_libs_def)
  have h2: "fd_get bad_signup_form ''password'' = Some (StrV ''abc'') \<and> length ''abc'' < 6"
    by (simp add: bad_signup_form_def fd_get_def)
  note h3 = sample_bad_invoice_amount
  have h4: "fd_get bad_invoice_form ''customerId'' = None"
    by (simp add: bad_invoice_form_def fd_get_def)
  have h5: "fd_get bad_invoice_form ''status'' \<noteq> Some (StrV ''pending'')
      \<and> fd_get bad_invoice_form ''status'' \<noteq> Some (StrV ''paid'')"
    by (simp add: bad_invoice_form_def fd_get_def)
  from invalid_input_no_database_call [where fd = bad_signup_form and x = "''nowhere''"
      and L = sample_libs and ps = no_state and w = empty_world and y = "''abc''"
      and fd' = bad_invoice_form and ps' = no_state and w' = empty_world] h1 h2 h3 h4 h5
  show ?thesis by blast
qed

text \<open>
  C6. For every id, \<^verbatim>\<open>deleteInvoice\<close> throws the error \<open>Failed to Delete Invoice\<close> and
  leaves the world as it was: no statement is sent and no path is revalidated, so the
  statements after the \<^verbatim>\<open>throw\<close> never run.
\<close>

theorem deleteInvoice_always_throws:
  "deleteInvoice the_id w = (Thr (JsError ''Failed to Delete Invoice''), w)"
  by (simp add: deleteInvoice_def and_then_def js_throw_def)

text \<open>
  C7. \<^verbatim>\<open>updateInvoice\<close> reads the customer id under the key \<open>custmerId\<close>. For a form
  that has no entry under that key (whatever it holds under \<open>customerId\<close>), the value read
  is absent, validation fails with an error on the field \<open>customerId\<close>, and the handler
  returns without sending any statement.
\<close>

theorem updateInvoice_misspelled_key:
  assumes "''custmerId'' \<notin> fst ` set fd"
  shows "fd_get fd ''custmerId'' = None \<and>
     (\<exists>fe. updateInvoice the_id ps fd w =
        (Ret \<lparr>errors = Some fe, message = Some ''Missing Fields. Failed to Update Invoice.''\<rparr>, w)
       \<and> map_of fe ''customerId'' = Some [Text ''Please select a customer''])"
proof -
  have g: "fd_get fd ''custmerId'' = None"
    using assms by (simp add: fd_get_def map_of_eq_None_iff)
  show ?thesis
    by (simp add: g updateInvoice_def Updateinvoice_def CreateInvoice_def z_string_def
        field_issues_def js_return_def Let_def split: sum.splits)
qed

theorem updateInvoice_misspelled_key_witness:
  "fd_get (invoice_form ''12.50'') ''customerId'' = Some (StrV ''c1'')
   \<and> ''custmerId'' \<notin> fst ` set (invoice_form ''12.50'')
   \<and> (\<exists>fe. updateInvoice ''i1'' no_state (invoice_form ''12.50'') empty_world =
        (Ret \<lparr>errors = Some fe, message = Some ''Missing Fields. Failed to Update Invoice.''\<rparr>,
         empty_world)
       \<and> map_of fe ''customerId'' = Some [Text ''Please select a customer''])"
proof -
  have h: "''custmerId'' \<notin> fst ` set (invoice_form ''12.50'')"
    by (simp add: invoice_form_def)
  have c: "fd_get (invoice_form ''12.50'') ''customerId'' = Some (StrV ''c1'')"
    by (simp add: invoice_form_def fd_get_def)
  from updateInvoice_misspelled_key [OF h, of "''i1''" no_state empty_world] h c
  show ?thesis by simp
qed

text \<open>
  C8. When the sign-in call throws an \<^verbatim>\<open>AuthError\<close> of type \<open>CredentialsSignin\<close>,
  \<^verbatim>\<open>authenticate\<close> returns \<open>Invalid credentials\<close>; when it throws an \<^verbatim>\<open>AuthError\<close>
  of any other type, \<^verbatim>\<open>authenticate\<close> returns \<open>Something went wrong\<close>; when it throws
  an error that is not an \<^verbatim>\<open>AuthError\<close>, \<^verbatim>\<open>authenticate\<close> throws that same error.
\<close>

theorem authenticate_maps_errors:
  "(signIn ''credentials'' fd w = (Inl (AuthError ''CredentialsSignin''), w')
      \<longrightarrow> authenticate signIn ps fd w = (Ret ''Invalid credentials'', w'))
 \<and> (signIn ''credentials'' fd w = (Inl (AuthError t), w') \<and> t \<noteq> ''CredentialsSignin''
      \<longrightarrow> authenticate signIn ps fd w = (Ret ''Something went wrong'', w'))
 \<and> (signIn ''credentials'' fd w = (Inl e, w') \<and> \<not> instanceof_AuthError e
      \<longrightarrow> authenticate signIn ps fd w = (Thr e, w'))"
  by (auto simp: authenticate_def try_catch_def and_then_def call_def js_return_def js_throw_def
      instanceof_AuthError_def split: exn.splits)

theorem authenticate_maps_errors_witness:
  "authenticate sample_signIn None [(''password'', StrV ''guess'')] empty_world
     = (Ret ''Invalid credentials'', empty_world)
   \<and> authenticate sample_signIn None [(''password'', FileV)] empty_world
     = (Ret ''Something went wrong'', empty_world)
   \<and> authenticate sample_signIn None [] empty_world
     = (Thr (OtherError ''TypeError''), empty_world)
   \<and> authenticate sample_signIn None [(''password'', StrV ''secret'')] empty_world
     = (Thr (NextRedirect ''/dashboard''), empty_world)"
proof -
  have a: "sample_signIn ''credentials'' [(''password'', StrV ''guess'')] empty_world
      = (Inl (AuthError ''CredentialsSignin''), empty_world)"
    by (simp add: sample_signIn_def fd_get_def)
  have b: "sample_signIn ''credentials'' [(''password'', FileV)] empty_world
      = (Inl (AuthError ''CallbackRouteError''), empty_world)
      \<and> ''CallbackRouteError'' \<noteq> ''CredentialsSignin''"
    by (simp add: sample_signIn_def fd_get_def)
  have c: "sample_signIn ''credentials'' [] empty_world
      = (Inl (OtherError ''TypeError''), empty_world)
      \<and> \<not> instanceof_AuthError (OtherError ''TypeError'')"
    by (simp add: sample_signIn_def fd_get_def instanceof_AuthError_def)
  have d: "sample_signIn ''credentials'' [(''password'', StrV ''secret'')] empty_world
      = (Inl (NextRedirect ''/dashboard''), empty_world)
      \<and> \<not> instanceof_AuthError (NextRedirect ''/dashboard'')"
    by (simp add: sample_signIn_def fd_get_def instanceof_AuthError_def)
  note t = authenticate_maps_errors [where signIn = sample_signIn and ps = None
      and w = empty_world and w' = empty_world]
  from t [of "[(''password'', StrV ''guess'')]"] a
  have 1: "authenticate sample_signIn None [(''password'', StrV ''guess'')] empty_world
     = (Ret ''Invalid credentials'', empty_world)" by blast
  from t [of "[(''password'', FileV)]" "''CallbackRouteError''"] b
  have 2: "authenticate sample_signIn None [(''password'', FileV)] empty_world
     = (Ret ''Something went wrong'', empty_world)" by blast
  from t [of "[]" _ "OtherError ''TypeError''"] c
  have 3: "authenticate sample_signIn None [] empty_world
     = (Thr (OtherError ''TypeError''), empty_world)" by blast
  from t [of "[(''password'', StrV ''secret'')]" _ "NextRedirect ''/dashboard''"] d
  have 4: "authenticate sample_signIn None [(''password'', StrV ''secret'')] empty_world
     = (Thr (NextRedirect ''/dashboard''), empty_world)" by blast
  from 1 2 3 4 show ?thesis by blast
qed

text \<open>
  C9. \<^verbatim>\<open>createInvoice\<close> sends at most one statement, an \<^verbatim>\<open>INSERT\<close> into
  \<open>invoices\<close> whose status is \<open>pending\<close> or \<open>paid\<close>, and a row it adds carries
  that status; a submission whose status is anything else is rejected with a field error
  on \<open>status\<close> and the world unchanged.
\<close>

theorem createInvoice_status_enum:
  "(statements (snd (createInvoice ps fd w)) = statements w
     \<and> invoices (snd (createInvoice ps fd w)) = invoices w
    \<or> (\<exists>c a st d. (st = ''pending'' \<or> st = ''paid'')
         \<and> statements (snd (createInvoice ps fd w)) = statements w @ [InsertInvoice c a st d]
         \<and> (invoices (snd (createInvoice ps fd w)) = invoices w
            \<or> invoices (snd (createInvoice ps fd w)) = invoices w @
                 [\<lparr>inv_id = None, inv_customer_id = c, inv_amount = a, inv_status = st,
                   inv_date = d\<rparr>])))
 \<and> (fd_get fd ''status'' \<noteq> Some (StrV ''pending'') \<and> fd_get fd ''status'' \<noteq> Some (StrV ''paid'')
      \<longrightarrow> (\<exists>fe. createInvoice ps fd w =
              (Ret \<lparr>errors = Some fe,
                     message = Some ''Missing Fields. Failed to Create invoice.''\<rparr>, w)
            \<and> map_of fe ''status'' \<noteq> None))"
proof (rule conjI)
  show "statements (snd (createInvoice ps fd w)) = statements w
     \<and> invoices (snd (createInvoice ps fd w)) = invoices w
    \<or> (\<exists>c a st d. (st = ''pending'' \<or> st = ''paid'')
         \<and> statements (snd (createInvoice ps fd w)) = statements w @ [InsertInvoice c a st d]
         \<and> (invoices (snd (createInvoice ps fd w)) = invoices w
            \<or> invoices (snd (createInvoice ps fd w)) = invoices w @
                 [\<lparr>inv_id = None, inv_customer_id = c, inv_amount = a, inv_status = st,
                   inv_date = d\<rparr>]))"
  proof (cases "CreateInvoice (fd_get fd ''customerId'') (fd_get fd ''amount'')
      (fd_get fd ''status'')")
    case (Inl fe)
    from createInvoice_invalid [OF this] show ?thesis by simp
  next
    case (Inr t)
    obtain c a s where t: "t = (c, a, s)" by (cases t) auto
    from Inr t have s: "s = ''pending'' \<or> s = ''paid''"
      by (simp add: CreateInvoice_Inr)
    from Inr t have v: "CreateInvoice (fd_get fd ''customerId'') (fd_get fd ''amount'')
      (fd_get fd ''status'') = Inr (c, a, s)" by simp
    show ?thesis
      using s by (simp add: createInvoice_valid [OF v])
  qed
next
  show "fd_get fd ''status'' \<noteq> Some (StrV ''pending'') \<and> fd_get fd ''status'' \<noteq> Some (StrV ''paid'')
      \<longrightarrow> (\<exists>fe. createInvoice ps fd w =
              (Ret \<lparr>errors = Some fe,
                     message = Some ''Missing Fields. Failed to Create invoice.''\<rparr>, w)
            \<and> map_of fe ''status'' \<noteq> None)"
    using createInvoice_bad_status [of fd ps w] by blast
qed

theorem createInvoice_status_enum_witness:
  "(fd_get bad_invoice_form ''status'' \<noteq> Some (StrV ''pending'')
      \<and> fd_get bad_invoice_form ''status'' \<noteq> Some (StrV ''paid''))
   \<and> (\<exists>fe. createInvoice no_state bad_invoice_form empty_world =
          (Ret \<lparr>errors = Some fe,
                 message = Some ''Missing Fields. Failed to Create invoice.''\<rparr>, empty_world)
        \<and> map_of fe ''status'' \<noteq> None)"
proof -
  have h: "fd_get bad_invoice_form ''status'' \<noteq> Some (StrV ''pending'')
      \<and> fd_get bad_invoice_form ''status'' \<noteq> Some (StrV ''paid'')"
    by (simp add: bad_invoice_form_def fd_get_def)
  from createInvoice_status_enum [of no_state bad_invoice_form empty_world] h
  show ?thesis by blast
qed

text \<open>
  C4. \<^verbatim>\<open>createInvoice\<close> multiplies the coerced amount by 100 and binds the product to the
  \<^verbatim>\<open>INSERT\<close> as it is, without rounding it to a whole number. The product is a binary64
  product: the submission with amount \<open>19.99\<close> passes the schema, and the amount bound
  and stored is \<open>8791694975696895 / 2 ^ 42\<close> (printed \<^verbatim>\<open>1998.9999999999998\<close>), which
  is neither a whole number of cents nor 1999.
\<close>

theorem createInvoice_fractional_cents:
  "CreateInvoice (fd_get (invoice_form ''19.99'') ''customerId'')
     (fd_get (invoice_form ''19.99'') ''amount'') (fd_get (invoice_form ''19.99'') ''status'')
   = Inr (''c1'', Fin (5626684784446013 / 281474976710656), ''pending'')
 \<and> createInvoice no_state (invoice_form ''19.99'') empty_world
   = (Thr (NextRedirect ''/dashboard/invoices''),
      empty_world\<lparr>statements :=
          [InsertInvoice ''c1'' (Fin (8791694975696895 / 4398046511104)) ''pending''
             ''2024-05-01''],
        invoices :=
          [\<lparr>inv_id = None, inv_customer_id = ''c1'',
            inv_amount = Fin (8791694975696895 / 4398046511104),
            inv_status = ''pending'', inv_date = ''2024-05-01''\<rparr>],
        revalidated := [''/dashboard/invoices'']\<rparr>)
 \<and> \<not> js_is_integer (Fin (8791694975696895 / 4398046511104))
 \<and> Fin (8791694975696895 / 4398046511104) \<noteq> Fin 1999"
proof -
  have f: "\<not> fault_next empty_world"
    by (simp add: fault_next_def empty_world_def)
  have i: "\<not> js_is_integer (Fin (8791694975696895 / 4398046511104))"
    by code_simp
  have r: "createInvoice no_state (invoice_form ''19.99'') empty_world
   = (Thr (NextRedirect ''/dashboard/invoices''),
      empty_world\<lparr>statements :=
          [InsertInvoice ''c1'' (Fin (8791694975696895 / 4398046511104)) ''pending''
             ''2024-05-01''],
        invoices :=
          [\<lparr>inv_id = None, inv_customer_id = ''c1'',
            inv_amount = Fin (8791694975696895 / 4398046511104),
            inv_status = ''pending'', inv_date = ''2024-05-01''\<rparr>],
        revalidated := [''/dashboard/invoices'']\<rparr>)"
    using f
    by (simp add: createInvoice_valid [OF invoice_form_19_99_valid] empty_world_date mul_19_99
          del: js_mul.simps)
       (simp add: empty_world_def)
  from invoice_form_19_99_valid r i show ?thesis by simp
qed


text \<open>
  C5. On a valid submission for a new user and a database without faults, the handler of
  \<^verbatim>\<open>app/lib/actions/signup.ts\<close> returns \<open>User created successfully!\<close>. The handler of
  \<^verbatim>\<open>app/lib/actions.ts\<close> calls \<^verbatim>\<open>redirect('/login')\<close> inside its \<^verbatim>\<open>try\<close>
  block: the error that \<^verbatim>\<open>redirect\<close> throws is caught by the handler's own
  \<^verbatim>\<open>catch\<close>, logged, and answered with \<open>Database Error: Failed to create user.\<close>,
  after the row has been inserted.
\<close>

theorem actions_signup_redirect_swallowed:
  "actions_signup sample_libs no_state signup_form empty_world =
     (Ret \<lparr>errors = None, message = Some ''Database Error: Failed to create user.''\<rparr>,
      empty_world\<lparr>statements := [SelectName ''bob'', SelectEmail ''a@b.com'',
                                  InsertUser (Some ''bob'') ''a@b.com'' ''$2b$terces''],
        users := [\<lparr>u_name = Some ''bob'', u_email = ''a@b.com'', u_password = ''$2b$terces''\<rparr>],
        console := [(''Signup Error:'', NextRedirect ''/login'')]\<rparr>)
 \<and> signup_signup sample_libs no_state signup_form empty_world =
     (Ret \<lparr>errors = None, message = Some ''User created successfully!''\<rparr>,
      empty_world\<lparr>statements := [SelectEmail ''a@b.com'',
                                  InsertUser None ''a@b.com'' ''$2b$terces''],
        users := [\<lparr>u_name = None, u_email = ''a@b.com'', u_password = ''$2b$terces''\<rparr>]\<rparr>)"
proof -
  have f: "\<forall>r\<in>set (users empty_world). u_name r \<noteq> Some ''bob'' \<and> u_email r \<noteq> ''a@b.com''"
    by (simp add: empty_world_def)
  have f': "\<forall>r\<in>set (users empty_world). u_email r \<noteq> ''a@b.com''"
    by (simp add: empty_world_def)
  have h: "healthy 3 empty_world" "healthy 2 empty_world"
    by (simp_all add: healthy_def empty_world_def)
  show ?thesis
    by (simp add: actions_signup_fresh [OF sample_actions_valid f h(1)]
        signup_signup_fresh [OF sample_signup_valid f' h(2)])
       (simp add: empty_world_def sample_libs_def)
qed

text \<open>
  C10. For both signup handlers, \<^verbatim>\<open>createInvoice\<close> and \<^verbatim>\<open>updateInvoice\<close>: the
  handler returns an object with an \<open>errors\<close> field exactly when the schema rejects the
  submission. A signup handler returns an object with a message and no \<open>errors\<close> field
  exactly when the schema accepts it (the duplicate, success and database-error outcomes).
  An invoice handler returns such an object, with its ``Database Error'' message, exactly
  when the schema accepts the submission and the database throws; it redirects exactly when
  the schema accepts the submission and the database executes the statement.
\<close>

theorem errors_field_iff_validation_failed:
  "(returned_with_errors (fst (actions_signup L ps fd w)) =
     isl (actions_SignupSchema L (fd_get fd ''name'') (fd_get fd ''email'') (fd_get fd ''password''))
   \<and> returned_message_only (fst (actions_signup L ps fd w)) =
     (\<not> isl (actions_SignupSchema L (fd_get fd ''name'') (fd_get fd ''email'')
         (fd_get fd ''password''))))
 \<and> (returned_with_errors (fst (signup_signup L ps fd w)) =
     isl (signup_SignupSchema L (fd_get fd ''email'') (fd_get fd ''password''))
   \<and> returned_message_only (fst (signup_signup L ps fd w)) =
     (\<not> isl (signup_SignupSchema L (fd_get fd ''email'') (fd_get fd ''password''))))
 \<and> (returned_with_errors (fst (createInvoice ps fd w)) =
     isl (CreateInvoice (fd_get fd ''customerId'') (fd_get fd ''amount'') (fd_get fd ''status''))
   \<and> returned_message_only (fst (createInvoice ps fd w)) =
     (\<not> isl (CreateInvoice (fd_get fd ''customerId'') (fd_get fd ''amount'')
         (fd_get fd ''status'')) \<and> fault_next w)
   \<and> (fst (createInvoice ps fd w) =
       Ret \<lparr>errors = None, message = Some ''Database Error: Failed to Create Invoice.''\<rparr>) =
     (\<not> isl (CreateInvoice (fd_get fd ''customerId'') (fd_get fd ''amount'')
         (fd_get fd ''status'')) \<and> fault_next w)
   \<and> (fst (createInvoice ps fd w) = Thr (NextRedirect ''/dashboard/invoices'')) =
     (\<not> isl (CreateInvoice (fd_get fd ''customerId'') (fd_get fd ''amount'')
         (fd_get fd ''status'')) \<and> \<not> fault_next w))
 \<and> (returned_with_errors (fst (updateInvoice the_id ps fd w)) =
     isl (Updateinvoice (fd_get fd ''custmerId'') (fd_get fd ''amount'') (fd_get fd ''status''))
   \<and> returned_message_only (fst (updateInvoice the_id ps fd w)) =
     (\<not> isl (Updateinvoice (fd_get fd ''custmerId'') (fd_get fd ''amount'')
         (fd_get fd ''status'')) \<and> fault_next w)
   \<and> (fst (updateInvoice the_id ps fd w) =
       Ret \<lparr>errors = None, message = Some ''Database Error: Failed to Update Invoice''\<rparr>) =
     (\<not> isl (Updateinvoice (fd_get fd ''custmerId'') (fd_get fd ''amount'')
         (fd_get fd ''status'')) \<and> fault_next w)
   \<and> (fst (updateInvoice the_id ps fd w) = Thr (NextRedirect ''/dashboard/invoices'')) =
     (\<not> isl (Updateinvoice (fd_get fd ''custmerId'') (fd_get fd ''amount'')
         (fd_get fd ''status'')) \<and> \<not> fault_next w))"
  by (intro conjI [OF actions_signup_errors_iff] conjI [OF signup_signup_errors_iff]
      conjI [OF createInvoice_outcomes] updateInvoice_outcomes)

theorem errors_field_iff_validation_failed_witness:
  "(returned_with_errors (fst (actions_signup sample_libs no_state [] empty_world))
    \<and> returned_with_errors (fst (signup_signup sample_libs no_state [] empty_world))
    \<and> returned_with_errors (fst (createInvoice no_state [] empty_world))
    \<and> returned_with_errors (fst (updateInvoice ''i1'' no_state [] empty_world)))
 \<and> (returned_message_only (fst (actions_signup sample_libs no_state full_form empty_world))
    \<and> returned_message_only (fst (signup_signup sample_libs no_state full_form empty_world))
    \<and> fst (createInvoice no_state full_form empty_world)
         = Thr (NextRedirect ''/dashboard/invoices'')
    \<and> fst (updateInvoice ''i1'' no_state full_form empty_world)
         = Thr (NextRedirect ''/dashboard/invoices''))
 \<and> (returned_message_only (fst (actions_signup sample_libs no_state full_form down_world))
    \<and> returned_message_only (fst (signup_signup sample_libs no_state full_form down_world))
    \<and> fst (createInvoice no_state full_form down_world)
         = Ret \<lparr>errors = None, message = Some ''Database Error: Failed to Create Invoice.''\<rparr>
    \<and> returned_message_only (fst (createInvoice no_state full_form down_world))
    \<and> fst (updateInvoice ''i1'' no_state full_form down_world)
         = Ret \<lparr>errors = None, message = Some ''Database Error: Failed to Update Invoice''\<rparr>
    \<and> returned_message_only (fst (updateInvoice ''i1'' no_state full_form down_world)))"
proof -
  have f: "\<not> fault_next empty_world" "fault_next down_world"
    by (simp_all add: fault_next_def empty_world_def down_world_def)
  from errors_field_iff_validation_failed [of sample_libs no_state "[]" empty_world "''i1''"]
    errors_field_iff_validation_failed [of sample_libs no_state full_form empty_world "''i1''"]
    errors_field_iff_validation_failed [of sample_libs no_state full_form down_world "''i1''"]
    empty_form_invalid full_form_valid f
  show ?thesis by blast
qed

end
